theory Spec2Isabelle
  imports Complex_Main
begin

section \<open>Option universe selection model\<close>

text \<open>
  A shallow embedding of \<^verbatim>\<open>Algorithm.Framework/Selection/OptionUniverseSelectionModel.py\<close>.
  The class is glue code between a Python policy object and the host engine, so the
  embedding has three layers:
  \<^item> the Python values the class computes with (\<open>datetime\<close>, \<open>timedelta\<close>, \<open>date\<close>,
    exceptions);
  \<^item> the host objects the class reads and mutates (symbols, the security registry, the
    securities themselves, the log), kept in one explicit state;
  \<^item> the methods of the class, each a function from the state to a result and the new
    state. \<open>CreateUniverses\<close> contains \<^verbatim>\<open>yield\<close>, so it is a generator: calling it
    only creates the generator object, and each \<^verbatim>\<open>next\<close> runs the body up to the
    following \<^verbatim>\<open>yield\<close>.
\<close>

subsection \<open>Python values\<close>

text \<open>
  A naive \<^verbatim>\<open>datetime\<close> is a proleptic Gregorian day number (\<^verbatim>\<open>toordinal()\<close>, from 1 for
  0001-01-01 to 3652059 for 9999-12-31) and the time of day in microseconds. A
  \<^verbatim>\<open>date\<close> is the day number alone. A \<^verbatim>\<open>timedelta\<close> is days, seconds and microseconds.
\<close>

record datetime =
  ordinal :: int
  usec :: int

datatype date = date (toordinal: int)

record timedelta =
  days :: int
  seconds :: int
  microseconds :: int

datatype PyError =
    ValueError string
  | AttributeError string
  | OverflowError string
  | HostError string

definition MAXORDINAL :: int where
  "MAXORDINAL = 3652059"

definition US_PER_DAY :: int where
  "US_PER_DAY = 86400000000"

definition datetime_min :: datetime where
  "datetime_min = \<lparr>ordinal = 1, usec = 0\<rparr>"

definition total_microseconds :: "timedelta \<Rightarrow> int" where
  "total_microseconds td = (days td * 86400 + seconds td) * 1000000 + microseconds td"

text \<open>
  \<^verbatim>\<open>datetime.__add__\<close>: the sum is computed on the day number and the time of day
  together, renormalised with floor division, and rejected with \<^verbatim>\<open>OverflowError\<close> when the
  day leaves the range of \<^verbatim>\<open>datetime\<close>.
\<close>

definition datetime_add :: "datetime \<Rightarrow> timedelta \<Rightarrow> PyError + datetime" where
  "datetime_add dt td =
     (let total = ordinal dt * US_PER_DAY + usec dt + total_microseconds td;
          d = total div US_PER_DAY
      in if 0 < d \<and> d \<le> MAXORDINAL
         then Inr \<lparr>ordinal = d, usec = total mod US_PER_DAY\<rparr>
         else Inl (OverflowError ''date value out of range''))"

text \<open>\<^verbatim>\<open>datetime.date()\<close>: the day, without the time of day.\<close>

definition datetime_date :: "datetime \<Rightarrow> date" where
  "datetime_date dt = date (ordinal dt)"

text \<open>
  The attribute \<^verbatim>\<open>nextRefreshTimeUtc\<close> holds a \<^verbatim>\<open>datetime\<close> after construction and a
  \<^verbatim>\<open>date\<close> after a refresh.
\<close>

datatype PyValue = DateTimeValue datetime | DateValue date

subsection \<open>Host objects\<close>

datatype SecurityType = Base | Equity | Option | Commodity | Forex | Future | Cfd | Crypto

text \<open>
  Modelled from the spec: the host's \<^verbatim>\<open>Symbol\<close> is not part of this file. A symbol is an
  opaque identifier with a display value, a security-type tag, a market identifier
  (\<^verbatim>\<open>ID.Market\<close>), for derivative symbols an underlying, and it is either canonical (the
  whole chain) or not (one contract). Two symbols are equal when all of these agree.
\<close>

datatype Symbol =
  Symbol (Value: string) (SecurityType: SecurityType) (Market: string)
         (Underlying: "Symbol option") (IsCanonical: bool)

text \<open>
  Modelled from the spec: \<^verbatim>\<open>Symbol.Create(ticker, securityType, market, alias)\<close> is the
  host's factory. For an option it returns the canonical symbol of the chain on
  \<open>ticker\<close>: its display value is the alias, its market the given one, its underlying
  the equity symbol of \<open>ticker\<close> on that market. No general property below depends on
  the underlying of the created symbol.
\<close>

definition Symbol_Create :: "string \<Rightarrow> SecurityType \<Rightarrow> string \<Rightarrow> string \<Rightarrow> Symbol" where
  "Symbol_Create ticker securityType market alias =
     Symbol alias securityType market
       (if securityType = Option then Some (Symbol ticker Equity market None False) else None)
       (securityType = Option)"

datatype Resolution = Tick | Second | Minute | Hour | Daily

record UniverseSettings =
  Resolution :: Resolution
  Leverage :: rat
  FillForward :: bool
  ExtendedMarketHours :: bool

text \<open>A security initializer is a host callback; only its identity matters here.\<close>

datatype SecurityInitializer = SecurityInitializer nat

text \<open>
  The callables of the class that are handed to the host. \<open>SelfFilter\<close> is the bound
  method \<^verbatim>\<open>self.Filter\<close>: a reference to the policy object and its method, not a copy.
\<close>

datatype BoundMethod = SelfFilter

record MarketHoursEntry =
  ExchangeHours :: nat
  DataTimeZone :: nat

text \<open>
  Modelled from the spec: the security object the host factory returns. It keeps what
  the factory was given, the contract filter set by \<^verbatim>\<open>SetFilter\<close> and the
  \<^verbatim>\<open>IsTradable\<close> flag.
\<close>

record Security =
  SecuritySymbol :: Symbol
  SecurityExchangeHours :: nat
  SecurityDataTimeZone :: nat
  SecuritySymbolProperties :: nat
  SecurityInitializedBy :: SecurityInitializer
  SecurityResolution :: Resolution
  SecurityFillForward :: bool
  SecurityLeverage :: rat
  SecurityExtendedMarketHours :: bool
  SecurityLiveMode :: bool
  ContractFilter :: "BoundMethod option"
  IsTradable :: bool

text \<open>
  The Python objects that \<^verbatim>\<open>optionChain\<close> can be bound to: a security (a reference into
  the heap of securities) or an element of the enumeration of \<^verbatim>\<open>algorithm.Securities\<close>.
  The registry is a dictionary from symbols to securities, and enumerating it gives its
  key/value pairs: the source compares the \<^verbatim>\<open>Key\<close> of each element with the symbol. A
  pair has a \<^verbatim>\<open>Key\<close> and a \<^verbatim>\<open>Value\<close> and no other member; the security is the value.
\<close>

datatype PyObject = SecurityObject nat | KeyValuePair (Key: Symbol) (Val: nat)

datatype LogMessage =
    RefreshingUniverses datetime
  | CreatingOptionChain datetime Symbol
  | ResolvedExistingOptionChainSecurity datetime Symbol
  | CreatingOptionChainSecurity datetime Symbol

text \<open>The calls into the host that change it or are observable, in the order made.\<close>

datatype HostCall =
    Log LogMessage
  | CreateSecurity nat
  | SetFilter PyObject BoundMethod
  | SetIsTradable PyObject bool

record Algorithm =
  UtcTime :: datetime
  DefaultUniverseSettings :: UniverseSettings
  DefaultSecurityInitializer :: SecurityInitializer
  LiveMode :: bool
  Securities :: "(Symbol \<times> nat) list"
  MarketHoursDatabase :: "string \<Rightarrow> Symbol option \<Rightarrow> SecurityType \<Rightarrow> MarketHoursEntry option"
  SymbolPropertiesDatabase :: "string \<Rightarrow> Symbol option \<Rightarrow> SecurityType \<Rightarrow> string \<Rightarrow> nat option"
  AccountCurrency :: string
  heap :: "Security list"
  calls :: "HostCall list"

record OptionChainUniverse =
  universe_option :: PyObject
  universe_settings :: UniverseSettings
  universe_initializer :: SecurityInitializer
  universe_liveMode :: bool

subsection \<open>The policy object\<close>

record OptionUniverseSelectionModel =
  nextRefreshTimeUtc :: PyValue
  refreshInterval :: timedelta
  optionChainSymbolSelector :: "datetime \<Rightarrow> Symbol list"
  universeSettings :: "UniverseSettings option"
  securityInitializer :: "SecurityInitializer option"

text \<open>
  The selector is a callable of the user; it is taken as a function from the time to the
  list of the symbols that iterating its result gives. The state a method runs in is
  the policy object \<open>self\<close> and the host \<open>algorithm\<close>.
\<close>

record World =
  self :: OptionUniverseSelectionModel
  algorithm :: Algorithm

definition init ::
  "timedelta \<Rightarrow> (datetime \<Rightarrow> Symbol list) \<Rightarrow> UniverseSettings option \<Rightarrow>
   SecurityInitializer option \<Rightarrow> OptionUniverseSelectionModel" where
  "init interval selector us si =
     \<lparr>nextRefreshTimeUtc = DateTimeValue datetime_min,
      refreshInterval = interval,
      optionChainSymbolSelector = selector,
      universeSettings = us,
      securityInitializer = si\<rparr>"

definition GetNextRefreshTimeUtc :: "World \<Rightarrow> PyValue \<times> World" where
  "GetNextRefreshTimeUtc w = (nextRefreshTimeUtc (self w), w)"

definition Filter :: "World \<Rightarrow> 'f \<Rightarrow> 'f \<times> World" where
  "Filter w filter' = (filter', w)"

text \<open>Calling a bound method runs the method on the policy object as it is then.\<close>

definition call_method :: "BoundMethod \<Rightarrow> World \<Rightarrow> 'f \<Rightarrow> 'f \<times> World" where
  "call_method m w x = (case m of SelfFilter \<Rightarrow> Filter w x)"

subsection \<open>Host operations\<close>

definition record_call :: "HostCall \<Rightarrow> World \<Rightarrow> World" where
  "record_call c w = w\<lparr>algorithm := (algorithm w)\<lparr>calls := calls (algorithm w) @ [c]\<rparr>\<rparr>"

text \<open>\<^verbatim>\<open>algorithm.Log(message)\<close>.\<close>

definition algorithm_Log :: "LogMessage \<Rightarrow> World \<Rightarrow> World" where
  "algorithm_Log msg w = record_call (Log msg) w"

text \<open>
  Modelled from the spec: the two reference databases are host collaborators. A lookup
  reads the host and fails with the host's own error when there is no entry.
\<close>

definition MarketHoursDatabase_GetEntry ::
  "World \<Rightarrow> string \<Rightarrow> Symbol option \<Rightarrow> SecurityType \<Rightarrow> PyError + MarketHoursEntry" where
  "MarketHoursDatabase_GetEntry w market underlying securityType =
     (case MarketHoursDatabase (algorithm w) market underlying securityType of
        None \<Rightarrow> Inl (HostError ''no market hours entry'')
      | Some e \<Rightarrow> Inr e)"

definition SymbolPropertiesDatabase_GetSymbolProperties ::
  "World \<Rightarrow> string \<Rightarrow> Symbol option \<Rightarrow> SecurityType \<Rightarrow> string \<Rightarrow> PyError + nat" where
  "SymbolPropertiesDatabase_GetSymbolProperties w market underlying securityType currency =
     (case SymbolPropertiesDatabase (algorithm w) market underlying securityType currency of
        None \<Rightarrow> Inl (HostError ''no symbol properties'')
      | Some p \<Rightarrow> Inr p)"

text \<open>
  Modelled from the spec: \<^verbatim>\<open>SecurityManager.CreateSecurity\<close>, the host's security factory.
  It allocates a new security object that holds the arguments, with no contract filter
  yet and directly tradable, and returns a reference to it. The registry
  \<^verbatim>\<open>algorithm.Securities\<close> is not changed.
\<close>

definition SecurityManager_CreateSecurity ::
  "World \<Rightarrow> nat \<Rightarrow> nat \<Rightarrow> nat \<Rightarrow> SecurityInitializer \<Rightarrow> Symbol \<Rightarrow> Resolution \<Rightarrow> bool \<Rightarrow> rat \<Rightarrow>
   bool \<Rightarrow> bool \<Rightarrow> PyObject \<times> World" where
  "SecurityManager_CreateSecurity w exchangeHours dataTimeZone symbolProperties initializer
       symbol resolution fillForward leverage extendedMarketHours isLiveMode =
     (let r = length (heap (algorithm w));
          s = \<lparr>SecuritySymbol = symbol,
               SecurityExchangeHours = exchangeHours,
               SecurityDataTimeZone = dataTimeZone,
               SecuritySymbolProperties = symbolProperties,
               SecurityInitializedBy = initializer,
               SecurityResolution = resolution,
               SecurityFillForward = fillForward,
               SecurityLeverage = leverage,
               SecurityExtendedMarketHours = extendedMarketHours,
               SecurityLiveMode = isLiveMode,
               ContractFilter = None,
               IsTradable = True\<rparr>
      in (SecurityObject r,
          record_call (CreateSecurity r)
            (w\<lparr>algorithm := (algorithm w)\<lparr>heap := heap (algorithm w) @ [s]\<rparr>\<rparr>)))"

text \<open>
  \<^verbatim>\<open>optionChain.SetFilter(f)\<close> and \<^verbatim>\<open>optionChain.IsTradable = b\<close>. A security has both
  members. A key/value pair has only \<^verbatim>\<open>Key\<close> and \<^verbatim>\<open>Value\<close>, so on a pair both raise
  \<^verbatim>\<open>AttributeError\<close>.
\<close>

definition update_security :: "nat \<Rightarrow> (Security \<Rightarrow> Security) \<Rightarrow> World \<Rightarrow> World" where
  "update_security r f w =
     w\<lparr>algorithm := (algorithm w)
         \<lparr>heap := (if r < length (heap (algorithm w))
                   then (heap (algorithm w))[r := f (heap (algorithm w) ! r)]
                   else heap (algorithm w))\<rparr>\<rparr>"

definition PyObject_SetFilter :: "PyObject \<Rightarrow> BoundMethod \<Rightarrow> World \<Rightarrow> (PyError + unit) \<times> World" where
  "PyObject_SetFilter obj f w =
     (case obj of
        SecurityObject r \<Rightarrow>
          (Inr (), record_call (SetFilter obj f)
                     (update_security r (\<lambda>s. s\<lparr>ContractFilter := Some f\<rparr>) w))
      | KeyValuePair k v \<Rightarrow> (Inl (AttributeError ''SetFilter''), w))"

definition PyObject_set_IsTradable :: "PyObject \<Rightarrow> bool \<Rightarrow> World \<Rightarrow> (PyError + unit) \<times> World" where
  "PyObject_set_IsTradable obj b w =
     (case obj of
        SecurityObject r \<Rightarrow>
          (Inr (), record_call (SetIsTradable obj b)
                     (update_security r (\<lambda>s. s\<lparr>IsTradable := b\<rparr>) w))
      | KeyValuePair k v \<Rightarrow> (Inl (AttributeError ''IsTradable''), w))"

subsection \<open>Building a chain\<close>

definition CreateOptionChainSecurity ::
  "World \<Rightarrow> Symbol \<Rightarrow> UniverseSettings \<Rightarrow> SecurityInitializer \<Rightarrow> (PyError + PyObject) \<times> World" where
  "CreateOptionChainSecurity w symbol settings initializer =
     (let w1 = algorithm_Log (CreatingOptionChainSecurity (UtcTime (algorithm w)) symbol) w;
          market = Market symbol;
          underlying = Underlying symbol
      in case MarketHoursDatabase_GetEntry w1 market underlying Option of
           Inl e \<Rightarrow> (Inl e, w1)
         | Inr marketHoursEntry \<Rightarrow>
             (case SymbolPropertiesDatabase_GetSymbolProperties w1 market underlying Option
                     (AccountCurrency (algorithm w1)) of
                Inl e \<Rightarrow> (Inl e, w1)
              | Inr symbolProperties \<Rightarrow>
                  (case SecurityManager_CreateSecurity w1
                          (ExchangeHours marketHoursEntry) (DataTimeZone marketHoursEntry)
                          symbolProperties initializer symbol
                          (Resolution settings) (FillForward settings) (Leverage settings)
                          (ExtendedMarketHours settings) (LiveMode (algorithm w1)) of
                     (sec, w2) \<Rightarrow> (Inr sec, w2))))"

text \<open>
  The rewriting of a non-canonical symbol reads \<^verbatim>\<open>underlying.Value\<close>, which raises
  \<^verbatim>\<open>AttributeError\<close> when the symbol has no underlying. The list comprehension over
  \<^verbatim>\<open>algorithm.Securities\<close> keeps the key/value pairs whose key is the symbol, and
  \<^verbatim>\<open>securities[0]\<close> is the first such pair itself.
\<close>

definition CreateOptionChain :: "World \<Rightarrow> Symbol \<Rightarrow> (PyError + OptionChainUniverse) \<times> World" where
  "CreateOptionChain w symbol0 =
     (if SecurityType symbol0 \<noteq> Option
      then (Inl (ValueError ''CreateOptionChain requires an option symbol.''), w)
      else
        let w1 = algorithm_Log (CreatingOptionChain (UtcTime (algorithm w)) symbol0) w;
            market = Market symbol0;
            underlying = Underlying symbol0
        in case (if \<not> IsCanonical symbol0
                 then (case underlying of
                         None \<Rightarrow> Inl (AttributeError ''Value'')
                       | Some u \<Rightarrow>
                           (let alias = ''?'' @ Value u
                            in Inr (Symbol_Create (Value u) Option market alias)))
                 else Inr symbol0) of
             Inl e \<Rightarrow> (Inl e, w1)
           | Inr symbol \<Rightarrow>
               (let settings = (case universeSettings (self w1) of
                                  Some s \<Rightarrow> s
                                | None \<Rightarrow> DefaultUniverseSettings (algorithm w1));
                    initializer = (case securityInitializer (self w1) of
                                     Some i \<Rightarrow> i
                                   | None \<Rightarrow> DefaultSecurityInitializer (algorithm w1));
                    securities = filter (\<lambda>s. fst s = symbol) (Securities (algorithm w1))
                in case (case securities of
                           [] \<Rightarrow> CreateOptionChainSecurity w1 symbol settings initializer
                         | s # _ \<Rightarrow>
                             (Inr (KeyValuePair (fst s) (snd s)),
                              algorithm_Log
                                (ResolvedExistingOptionChainSecurity (UtcTime (algorithm w1)) symbol)
                                w1)) of
                     (Inl e, w2) \<Rightarrow> (Inl e, w2)
                   | (Inr optionChain, w2) \<Rightarrow>
                       (case PyObject_SetFilter optionChain SelfFilter w2 of
                          (Inl e, w3) \<Rightarrow> (Inl e, w3)
                        | (Inr _, w3) \<Rightarrow>
                            (case PyObject_set_IsTradable optionChain False w3 of
                               (Inl e, w4) \<Rightarrow> (Inl e, w4)
                             | (Inr _, w4) \<Rightarrow>
                                 (Inr \<lparr>universe_option = optionChain,
                                       universe_settings = settings,
                                       universe_initializer = initializer,
                                       universe_liveMode = LiveMode (algorithm w4)\<rparr>, w4)))))"

subsection \<open>Refreshing\<close>

text \<open>
  The generator object returned by \<open>CreateUniverses\<close>. Before the first \<^verbatim>\<open>next\<close> no
  statement of the body has run. Between two \<^verbatim>\<open>yield\<close>s the generator keeps the rest of
  the selector's output and the local set \<^verbatim>\<open>uniqueUnderlyingSymbols\<close>. After a
  \<^verbatim>\<open>return\<close> or an exception it is finished.
\<close>

datatype Generator =
    Created
  | Suspended "Symbol list" "Symbol option set"
  | Finished

datatype Outcome = Yield OptionChainUniverse | StopIteration | Raise PyError

definition CreateUniverses :: "World \<Rightarrow> Generator \<times> World" where
  "CreateUniverses w = (Created, w)"

text \<open>The \<^verbatim>\<open>for\<close> loop, run from its head up to the next \<^verbatim>\<open>yield\<close>, return or exception.\<close>

fun CreateUniverses_loop ::
  "World \<Rightarrow> Symbol list \<Rightarrow> Symbol option set \<Rightarrow> Outcome \<times> Generator \<times> World" where
  "CreateUniverses_loop w [] uniqueUnderlyingSymbols = (StopIteration, Finished, w)"
| "CreateUniverses_loop w (optionSymbol # rest) uniqueUnderlyingSymbols =
     (if SecurityType optionSymbol \<noteq> Option
      then (Raise (ValueError ''optionChainSymbolSelector must return option symbols.''),
            Finished, w)
      else if Underlying optionSymbol \<notin> uniqueUnderlyingSymbols
      then (case CreateOptionChain w optionSymbol of
              (Inl e, w') \<Rightarrow> (Raise e, Finished, w')
            | (Inr universe, w') \<Rightarrow>
                (Yield universe,
                 Suspended rest (insert (Underlying optionSymbol) uniqueUnderlyingSymbols),
                 w'))
      else CreateUniverses_loop w rest uniqueUnderlyingSymbols)"

text \<open>
  \<^verbatim>\<open>next(generator)\<close>. The first one runs the body from its first statement: the
  assignment to \<^verbatim>\<open>nextRefreshTimeUtc\<close>, the log line, the empty set, the call of the
  selector, and the loop.
\<close>

definition generator_next :: "Generator \<Rightarrow> World \<Rightarrow> Outcome \<times> Generator \<times> World" where
  "generator_next g w =
     (case g of
        Created \<Rightarrow>
          (case datetime_add (UtcTime (algorithm w)) (refreshInterval (self w)) of
             Inl e \<Rightarrow> (Raise e, Finished, w)
           | Inr s \<Rightarrow>
               (let w1 = w\<lparr>self := (self w)\<lparr>nextRefreshTimeUtc := DateValue (datetime_date s)\<rparr>\<rparr>;
                    w2 = algorithm_Log (RefreshingUniverses (UtcTime (algorithm w1))) w1
                in CreateUniverses_loop w2
                     (optionChainSymbolSelector (self w2) (UtcTime (algorithm w2))) {}))
      | Suspended rest uniqueUnderlyingSymbols \<Rightarrow>
          CreateUniverses_loop w rest uniqueUnderlyingSymbols
      | Finished \<Rightarrow> (StopIteration, Finished, w))"

text \<open>
  The host consumes the generator to its end: it collects what is yielded until the
  generator returns or raises.
\<close>

fun remaining :: "Generator \<Rightarrow> World \<Rightarrow> nat" where
  "remaining Created w =
     Suc (Suc (length (optionChainSymbolSelector (self w) (UtcTime (algorithm w)))))"
| "remaining (Suspended rest uniqueUnderlyingSymbols) w = Suc (length rest)"
| "remaining Finished w = 0"

lemma CreateUniverses_loop_shrinks:
  "CreateUniverses_loop w xs seen = (Yield u, g', w') \<Longrightarrow> remaining g' w' \<le> length xs"
  by (induction xs) (auto split: if_splits prod.splits sum.splits)

lemma generator_next_shrinks:
  "generator_next g w = (Yield u, g', w') \<Longrightarrow> remaining g' w' < remaining g w"
  by (cases g)
     (auto simp: generator_next_def algorithm_Log_def record_call_def Let_def
           split: sum.splits dest!: CreateUniverses_loop_shrinks)

function drain :: "Generator \<Rightarrow> World \<Rightarrow> OptionChainUniverse list \<times> PyError option \<times> World" where
  "drain g w =
     (case generator_next g w of
        (Yield u, g', w') \<Rightarrow> (case drain g' w' of (us, e, w'') \<Rightarrow> (u # us, e, w''))
      | (StopIteration, g', w') \<Rightarrow> ([], None, w')
      | (Raise e, g', w') \<Rightarrow> ([], Some e, w'))"
  by pat_completeness auto
termination
  by (relation "measure (\<lambda>(g, w). remaining g w)") (auto dest: generator_next_shrinks [OF sym])

declare drain.simps [simp del]

subsection \<open>The blocks of \<open>CreateOptionChain\<close>\<close>

text \<open>
  The body of \<open>CreateOptionChain\<close> is a sequence of commented blocks. Each block is
  named here, so that a proof can address one block at a time; the lemma
  \<open>CreateOptionChain_staged\<close> below shows that the method is their composition.
  \<open>canonical\<close> is the block that rewrites a non-canonical symbol,
  \<open>effective_settings\<close> and \<open>effective_initializer\<close> resolve the defaults,
  \<open>resolve_security\<close> looks the symbol up in the registry or creates the security, and
  \<open>configure\<close> sets the filter, clears the tradable flag and wraps the result.
\<close>

definition canonical :: "Symbol \<Rightarrow> PyError + Symbol" where
  "canonical symbol0 =
     (if \<not> IsCanonical symbol0
      then (case Underlying symbol0 of
              None \<Rightarrow> Inl (AttributeError ''Value'')
            | Some u \<Rightarrow> Inr (Symbol_Create (Value u) Option (Market symbol0) (''?'' @ Value u)))
      else Inr symbol0)"

definition effective_settings :: "World \<Rightarrow> UniverseSettings" where
  "effective_settings w =
     (case universeSettings (self w) of
        Some s \<Rightarrow> s
      | None \<Rightarrow> DefaultUniverseSettings (algorithm w))"

definition effective_initializer :: "World \<Rightarrow> SecurityInitializer" where
  "effective_initializer w =
     (case securityInitializer (self w) of
        Some i \<Rightarrow> i
      | None \<Rightarrow> DefaultSecurityInitializer (algorithm w))"

definition resolve_security ::
  "World \<Rightarrow> Symbol \<Rightarrow> UniverseSettings \<Rightarrow> SecurityInitializer \<Rightarrow> (PyError + PyObject) \<times> World" where
  "resolve_security w symbol st i =
     (case filter (\<lambda>s. fst s = symbol) (Securities (algorithm w)) of
        [] \<Rightarrow> CreateOptionChainSecurity w symbol st i
      | s # _ \<Rightarrow>
          (Inr (KeyValuePair (fst s) (snd s)),
           algorithm_Log (ResolvedExistingOptionChainSecurity (UtcTime (algorithm w)) symbol) w))"

definition configure ::
  "PyObject \<Rightarrow> UniverseSettings \<Rightarrow> SecurityInitializer \<Rightarrow> World \<Rightarrow>
   (PyError + OptionChainUniverse) \<times> World" where
  "configure optionChain st i w =
     (case PyObject_SetFilter optionChain SelfFilter w of
        (Inl e, w3) \<Rightarrow> (Inl e, w3)
      | (Inr _, w3) \<Rightarrow>
          (case PyObject_set_IsTradable optionChain False w3 of
             (Inl e, w4) \<Rightarrow> (Inl e, w4)
           | (Inr _, w4) \<Rightarrow>
               (Inr \<lparr>universe_option = optionChain,
                     universe_settings = st,
                     universe_initializer = i,
                     universe_liveMode = LiveMode (algorithm w4)\<rparr>, w4)))"

text \<open>
  The security that the host factory allocates for a symbol, given the two database
  entries, the settings, the initializer and the engine mode.
\<close>

definition new_security ::
  "Symbol \<Rightarrow> MarketHoursEntry \<Rightarrow> nat \<Rightarrow> UniverseSettings \<Rightarrow> SecurityInitializer \<Rightarrow> bool \<Rightarrow>
   Security" where
  "new_security symbol e p st i live =
     \<lparr>SecuritySymbol = symbol,
      SecurityExchangeHours = ExchangeHours e,
      SecurityDataTimeZone = DataTimeZone e,
      SecuritySymbolProperties = p,
      SecurityInitializedBy = i,
      SecurityResolution = Resolution st,
      SecurityFillForward = FillForward st,
      SecurityLeverage = Leverage st,
      SecurityExtendedMarketHours = ExtendedMarketHours st,
      SecurityLiveMode = live,
      ContractFilter = None,
      IsTradable = True\<rparr>"

text \<open>
  The world after the first statements of the generator body: the new
  \<^verbatim>\<open>nextRefreshTimeUtc\<close> and the log line.
\<close>

definition refresh_started :: "World \<Rightarrow> datetime \<Rightarrow> World" where
  "refresh_started w s =
     algorithm_Log (RefreshingUniverses (UtcTime (algorithm w)))
       (w\<lparr>self := (self w)\<lparr>nextRefreshTimeUtc := DateValue (datetime_date s)\<rparr>\<rparr>)"


text \<open>
  What the host keeps through a call: every part of it but the heap of securities and
  the list of calls.
\<close>

definition host_kept :: "World \<Rightarrow> World \<Rightarrow> bool" where
  "host_kept w w' =
     (UtcTime (algorithm w') = UtcTime (algorithm w) \<and>
      DefaultUniverseSettings (algorithm w') = DefaultUniverseSettings (algorithm w) \<and>
      DefaultSecurityInitializer (algorithm w') = DefaultSecurityInitializer (algorithm w) \<and>
      LiveMode (algorithm w') = LiveMode (algorithm w) \<and>
      Securities (algorithm w') = Securities (algorithm w) \<and>
      MarketHoursDatabase (algorithm w') = MarketHoursDatabase (algorithm w) \<and>
      SymbolPropertiesDatabase (algorithm w') = SymbolPropertiesDatabase (algorithm w) \<and>
      AccountCurrency (algorithm w') = AccountCurrency (algorithm w))"

subsection \<open>The refresh as the specification words it\<close>

text \<open>
  The specification describes a refresh in three sentences. It ``skips any option symbol
  whose underlying was already processed in this call (first-seen-wins; selector order
  determines which alias gets used)'': \<open>first_seen\<close>. ``For each first-seen
  underlying, [it] produces one ChainUniverse via the chain-construction step'', and a
  failure of that step aborts the call: \<open>build_chains\<close>, which pairs each universe
  with the symbol it was built for. It ``fails with InvalidSelectorOutput if the
  symbol's security type is not Option'': \<open>refresh_result\<close>, which builds the chains
  of the symbols before the first symbol that is not an option and then fails, or
  ends normally when there is no such symbol.
\<close>

fun first_seen :: "Symbol option set \<Rightarrow> Symbol list \<Rightarrow> Symbol list" where
  "first_seen seen [] = []"
| "first_seen seen (s # ss) =
     (if Underlying s \<in> seen then first_seen seen ss
      else s # first_seen (insert (Underlying s) seen) ss)"

fun build_chains ::
  "World \<Rightarrow> Symbol list \<Rightarrow> (Symbol \<times> OptionChainUniverse) list \<times> PyError option \<times> World" where
  "build_chains w [] = ([], None, w)"
| "build_chains w (s # ss) =
     (case CreateOptionChain w s of
        (Inl e, w') \<Rightarrow> ([], Some e, w')
      | (Inr u, w') \<Rightarrow>
          (case build_chains w' ss of (us, e, w'') \<Rightarrow> ((s, u) # us, e, w'')))"

definition selector_error :: PyError where
  "selector_error = ValueError ''optionChainSymbolSelector must return option symbols.''"

definition is_option :: "Symbol \<Rightarrow> bool" where
  "is_option s = (SecurityType s = Option)"

definition refresh_result ::
  "World \<Rightarrow> Symbol option set \<Rightarrow> Symbol list \<Rightarrow>
   OptionChainUniverse list \<times> PyError option \<times> World" where
  "refresh_result w seen xs =
     (case build_chains w (first_seen seen (takeWhile is_option xs)) of
        (us, None, w') \<Rightarrow>
          (map snd us, if list_all is_option xs then None else Some selector_error, w')
      | (us, Some e, w') \<Rightarrow> (map snd us, Some e, w'))"

subsection \<open>A concrete host\<close>

text \<open>
  The scenario of the specification: an interval of one day, a host clock at
  2018-11-02 09:30, and symbols for Apple and Microsoft shares, two Apple option
  contracts and the canonical Apple chain.
\<close>

definition AAPL :: Symbol where
  "AAPL = Symbol ''AAPL'' Equity ''usa'' None False"

definition MSFT :: Symbol where
  "MSFT = Symbol ''MSFT'' Equity ''usa'' None False"

definition AAPL_call :: Symbol where
  "AAPL_call = Symbol ''AAPL 190118C00150000'' Option ''usa'' (Some AAPL) False"

definition AAPL_put :: Symbol where
  "AAPL_put = Symbol ''AAPL 190118P00150000'' Option ''usa'' (Some AAPL) False"

definition AAPL_chain :: Symbol where
  "AAPL_chain = Symbol ''?AAPL'' Option ''usa'' (Some AAPL) True"

definition one_day :: timedelta where
  "one_day = \<lparr>days = 1, seconds = 0, microseconds = 0\<rparr>"

definition half_past_nine :: datetime where
  "half_past_nine = \<lparr>ordinal = 737000, usec = 34200000000\<rparr>"

definition minute_settings :: UniverseSettings where
  "minute_settings =
     \<lparr>Resolution = Minute, Leverage = 1, FillForward = True, ExtendedMarketHours = False\<rparr>"

definition daily_settings :: UniverseSettings where
  "daily_settings =
     \<lparr>Resolution = Daily, Leverage = 2, FillForward = False, ExtendedMarketHours = False\<rparr>"

definition usa_market_hours ::
  "string \<Rightarrow> Symbol option \<Rightarrow> SecurityType \<Rightarrow> MarketHoursEntry option" where
  "usa_market_hours market underlying securityType =
     (if market = ''usa'' then Some \<lparr>ExchangeHours = 7, DataTimeZone = 5\<rparr> else None)"

definition usa_symbol_properties ::
  "string \<Rightarrow> Symbol option \<Rightarrow> SecurityType \<Rightarrow> string \<Rightarrow> nat option" where
  "usa_symbol_properties market underlying securityType currency =
     (if market = ''usa'' then Some 3 else None)"

definition host :: "(Symbol \<times> nat) list \<Rightarrow> Security list \<Rightarrow> Algorithm" where
  "host registry securities =
     \<lparr>UtcTime = half_past_nine,
      DefaultUniverseSettings = minute_settings,
      DefaultSecurityInitializer = SecurityInitializer 0,
      LiveMode = False,
      Securities = registry,
      MarketHoursDatabase = usa_market_hours,
      SymbolPropertiesDatabase = usa_symbol_properties,
      AccountCurrency = ''USD'',
      heap = securities,
      calls = []\<rparr>"

definition scenario_selector :: "datetime \<Rightarrow> Symbol list" where
  "scenario_selector t = [AAPL_call, AAPL_put, MSFT]"

definition scenario :: World where
  "scenario = \<lparr>self = init one_day scenario_selector None None, algorithm = host [] []\<rparr>"




text \<open>The scenario after the host has changed its default settings and initializer.\<close>

definition changed_default :: World where
  "changed_default =
     scenario\<lparr>algorithm := (host [] [])
       \<lparr>DefaultUniverseSettings := daily_settings,
        DefaultSecurityInitializer := SecurityInitializer 1\<rparr>\<rparr>"

text \<open>The scenario with settings and an initializer given at construction.\<close>

definition explicit_settings :: World where
  "explicit_settings =
     \<lparr>self = init one_day scenario_selector (Some daily_settings) (Some (SecurityInitializer 2)),
      algorithm = host [] []\<rparr>"

text \<open>The scenario with the host clock on the last day of \<^verbatim>\<open>datetime\<close>.\<close>

definition end_of_time :: World where
  "end_of_time =
     scenario\<lparr>algorithm := (host [] [])\<lparr>UtcTime := \<lparr>ordinal = 3652059, usec = 34200000000\<rparr>\<rparr>\<rparr>"

text \<open>
  The scenario with the canonical Apple chain already in the registry of the host, its
  security at address 0 of the heap.
\<close>

definition AAPL_chain_security :: Security where
  "AAPL_chain_security =
     new_security AAPL_chain \<lparr>ExchangeHours = 7, DataTimeZone = 5\<rparr> 3 minute_settings
       (SecurityInitializer 0) False"

definition registered :: World where
  "registered = scenario\<lparr>algorithm := host [(AAPL_chain, 0)] [AAPL_chain_security]\<rparr>"

section \<open>Properties of the model\<close>

subsection \<open>Auxiliary facts\<close>

lemma CreateOptionChain_staged:
  "CreateOptionChain w symbol0 =
     (if SecurityType symbol0 \<noteq> Option
      then (Inl (ValueError ''CreateOptionChain requires an option symbol.''), w)
      else
        let w1 = algorithm_Log (CreatingOptionChain (UtcTime (algorithm w)) symbol0) w
        in case canonical symbol0 of
             Inl e \<Rightarrow> (Inl e, w1)
           | Inr symbol \<Rightarrow>
               (case resolve_security w1 symbol (effective_settings w1) (effective_initializer w1) of
                  (Inl e, w2) \<Rightarrow> (Inl e, w2)
                | (Inr optionChain, w2) \<Rightarrow>
                    configure optionChain (effective_settings w1) (effective_initializer w1) w2))"
  unfolding CreateOptionChain_def canonical_def effective_settings_def effective_initializer_def
    resolve_security_def configure_def Let_def
  by (rule refl)

lemma self_record_call [simp]: "self (record_call c w) = self w"
  by (simp add: record_call_def)

lemma algorithm_record_call [simp]:
  "algorithm (record_call c w) = (algorithm w)\<lparr>calls := calls (algorithm w) @ [c]\<rparr>"
  by (simp add: record_call_def)

lemma self_update_security [simp]: "self (update_security r f w) = self w"
  by (simp add: update_security_def)

lemma algorithm_update_security [simp]:
  "r < length (heap (algorithm w)) \<Longrightarrow>
   algorithm (update_security r f w) =
     (algorithm w)\<lparr>heap := (heap (algorithm w))[r := f (heap (algorithm w) ! r)]\<rparr>"
  by (simp add: update_security_def)

lemma CreateOptionChainSecurity_Inr:
  assumes "CreateOptionChainSecurity w symbol st i = (Inr obj, w')"
  shows "\<exists>e p.
           MarketHoursDatabase (algorithm w) (Market symbol) (Underlying symbol) Option = Some e \<and>
           SymbolPropertiesDatabase (algorithm w) (Market symbol) (Underlying symbol) Option
             (AccountCurrency (algorithm w)) = Some p \<and>
           obj = SecurityObject (length (heap (algorithm w))) \<and>
           self w' = self w \<and>
           algorithm w' = (algorithm w)
             \<lparr>heap := heap (algorithm w) @
                        [new_security symbol e p st i (LiveMode (algorithm w))],
              calls := calls (algorithm w) @
                        [Log (CreatingOptionChainSecurity (UtcTime (algorithm w)) symbol),
                         CreateSecurity (length (heap (algorithm w)))]\<rparr>"
  using assms
  by (auto simp: CreateOptionChainSecurity_def SecurityManager_CreateSecurity_def
        MarketHoursDatabase_GetEntry_def SymbolPropertiesDatabase_GetSymbolProperties_def
        algorithm_Log_def Let_def new_security_def
      split: option.splits)

lemma resolve_security_Inr:
  assumes "resolve_security w symbol st i = (Inr obj, w')"
  shows "(filter (\<lambda>s. fst s = symbol) (Securities (algorithm w)) = [] \<and>
          CreateOptionChainSecurity w symbol st i = (Inr obj, w')) \<or>
         (\<exists>k v. obj = KeyValuePair k v)"
  using assms by (auto simp: resolve_security_def split: list.splits)

lemma configure_KeyValuePair:
  "configure (KeyValuePair k v) st i w = (Inl (AttributeError ''SetFilter''), w)"
  by (simp add: configure_def PyObject_SetFilter_def)

lemma configure_SecurityObject:
  "configure (SecurityObject r) st i w =
     (Inr \<lparr>universe_option = SecurityObject r, universe_settings = st,
           universe_initializer = i, universe_liveMode = LiveMode (algorithm w)\<rparr>,
      record_call (SetIsTradable (SecurityObject r) False)
        (update_security r (\<lambda>s. s\<lparr>IsTradable := False\<rparr>)
          (record_call (SetFilter (SecurityObject r) SelfFilter)
            (update_security r (\<lambda>s. s\<lparr>ContractFilter := Some SelfFilter\<rparr>) w))))"
  by (simp add: configure_def PyObject_SetFilter_def PyObject_set_IsTradable_def
        update_security_def)

lemma effective_settings_Log [simp]:
  "effective_settings (algorithm_Log m w) = effective_settings w"
  by (simp add: effective_settings_def algorithm_Log_def split: option.splits)

lemma effective_initializer_Log [simp]:
  "effective_initializer (algorithm_Log m w) = effective_initializer w"
  by (simp add: effective_initializer_def algorithm_Log_def split: option.splits)

lemma CreateOptionChain_Inr:
  assumes "CreateOptionChain w symbol0 = (Inr u, w')"
  shows "\<exists>symbol e p.
           SecurityType symbol0 = Option \<and>
           canonical symbol0 = Inr symbol \<and>
           filter (\<lambda>s. fst s = symbol) (Securities (algorithm w)) = [] \<and>
           MarketHoursDatabase (algorithm w) (Market symbol) (Underlying symbol) Option = Some e \<and>
           SymbolPropertiesDatabase (algorithm w) (Market symbol) (Underlying symbol) Option
             (AccountCurrency (algorithm w)) = Some p \<and>
           u = \<lparr>universe_option = SecurityObject (length (heap (algorithm w))),
                 universe_settings = effective_settings w,
                 universe_initializer = effective_initializer w,
                 universe_liveMode = LiveMode (algorithm w)\<rparr> \<and>
           self w' = self w \<and>
           algorithm w' = (algorithm w)
             \<lparr>heap := heap (algorithm w) @
                  [(new_security symbol e p (effective_settings w) (effective_initializer w)
                      (LiveMode (algorithm w)))
                     \<lparr>ContractFilter := Some SelfFilter, IsTradable := False\<rparr>],
              calls := calls (algorithm w) @
                  [Log (CreatingOptionChain (UtcTime (algorithm w)) symbol0),
                   Log (CreatingOptionChainSecurity (UtcTime (algorithm w)) symbol),
                   CreateSecurity (length (heap (algorithm w))),
                   SetFilter (SecurityObject (length (heap (algorithm w)))) SelfFilter,
                   SetIsTradable (SecurityObject (length (heap (algorithm w)))) False]\<rparr>"
proof -
  define w1 where "w1 = algorithm_Log (CreatingOptionChain (UtcTime (algorithm w)) symbol0) w"
  have w1: "self w1 = self w"
    "algorithm w1 = (algorithm w)\<lparr>calls := calls (algorithm w) @
        [Log (CreatingOptionChain (UtcTime (algorithm w)) symbol0)]\<rparr>"
    by (simp_all add: w1_def algorithm_Log_def)
  from assms have opt: "SecurityType symbol0 = Option"
    by (auto simp: CreateOptionChain_staged split: if_splits)
  with assms obtain symbol where can: "canonical symbol0 = Inr symbol"
    by (auto simp: CreateOptionChain_staged Let_def split: sum.splits)
  with assms opt obtain obj w2 where
    res: "resolve_security w1 symbol (effective_settings w) (effective_initializer w) = (Inr obj, w2)"
    and conf: "configure obj (effective_settings w) (effective_initializer w) w2 = (Inr u, w')"
    by (auto simp: CreateOptionChain_staged Let_def w1_def split: sum.splits prod.splits)
  from conf have "\<nexists>k v. obj = KeyValuePair k v"
    by (auto simp: configure_KeyValuePair)
  with resolve_security_Inr [OF res] have
    none: "filter (\<lambda>s. fst s = symbol) (Securities (algorithm w1)) = []"
    and mk: "CreateOptionChainSecurity w1 symbol (effective_settings w) (effective_initializer w)
               = (Inr obj, w2)"
    by auto
  from CreateOptionChainSecurity_Inr [OF mk] obtain e p where
    e: "MarketHoursDatabase (algorithm w1) (Market symbol) (Underlying symbol) Option = Some e"
    and p: "SymbolPropertiesDatabase (algorithm w1) (Market symbol) (Underlying symbol) Option
             (AccountCurrency (algorithm w1)) = Some p"
    and obj: "obj = SecurityObject (length (heap (algorithm w1)))"
    and s2: "self w2 = self w1"
    and a2: "algorithm w2 = (algorithm w1)
             \<lparr>heap := heap (algorithm w1) @
                        [new_security symbol e p (effective_settings w) (effective_initializer w)
                           (LiveMode (algorithm w1))],
              calls := calls (algorithm w1) @
                        [Log (CreatingOptionChainSecurity (UtcTime (algorithm w1)) symbol),
                         CreateSecurity (length (heap (algorithm w1)))]\<rparr>"
    by blast
  from conf obj a2 s2 w1 have "u = \<lparr>universe_option = SecurityObject (length (heap (algorithm w))),
                 universe_settings = effective_settings w,
                 universe_initializer = effective_initializer w,
                 universe_liveMode = LiveMode (algorithm w)\<rparr>"
    and "self w' = self w"
    and "algorithm w' = (algorithm w)
             \<lparr>heap := heap (algorithm w) @
                  [(new_security symbol e p (effective_settings w) (effective_initializer w)
                      (LiveMode (algorithm w)))
                     \<lparr>ContractFilter := Some SelfFilter, IsTradable := False\<rparr>],
              calls := calls (algorithm w) @
                  [Log (CreatingOptionChain (UtcTime (algorithm w)) symbol0),
                   Log (CreatingOptionChainSecurity (UtcTime (algorithm w)) symbol),
                   CreateSecurity (length (heap (algorithm w))),
                   SetFilter (SecurityObject (length (heap (algorithm w)))) SelfFilter,
                   SetIsTradable (SecurityObject (length (heap (algorithm w)))) False]\<rparr>"
    by (auto simp: configure_SecurityObject)
  with opt can none e p w1 show ?thesis by auto
qed

lemma CreateOptionChainSecurity_self:
  "self (snd (CreateOptionChainSecurity w symbol st i)) = self w"
  by (simp add: CreateOptionChainSecurity_def SecurityManager_CreateSecurity_def
        algorithm_Log_def Let_def split: sum.splits)

lemma resolve_security_self: "self (snd (resolve_security w symbol st i)) = self w"
  by (simp add: resolve_security_def CreateOptionChainSecurity_self algorithm_Log_def
        split: list.splits)

lemma configure_self: "self (snd (configure obj st i w)) = self w"
  by (cases obj) (simp_all add: configure_KeyValuePair configure_SecurityObject)

lemma CreateOptionChain_self: "self (snd (CreateOptionChain w symbol0)) = self w"
proof -
  have "self (snd (case resolve_security w1 symbol st i of
                     (Inl e, w2) \<Rightarrow> (Inl e, w2)
                   | (Inr optionChain, w2) \<Rightarrow> configure optionChain st i w2)) = self w1"
    for w1 symbol st i
    using resolve_security_self [of w1 symbol st i]
    by (auto simp: configure_self split: prod.splits sum.splits)
  then show ?thesis
    by (simp add: CreateOptionChain_staged Let_def algorithm_Log_def split: sum.splits)
qed

lemma CreateOptionChainSecurity_error:
  "fst (CreateOptionChainSecurity w symbol st i) = Inl e \<Longrightarrow> \<exists>m. e = HostError m"
  by (auto simp: CreateOptionChainSecurity_def SecurityManager_CreateSecurity_def
        MarketHoursDatabase_GetEntry_def SymbolPropertiesDatabase_GetSymbolProperties_def
        Let_def split: option.splits)

lemma resolve_security_error:
  "fst (resolve_security w symbol st i) = Inl e \<Longrightarrow> \<exists>m. e = HostError m"
  by (auto simp: resolve_security_def split: list.splits dest: CreateOptionChainSecurity_error)

lemma configure_error:
  "fst (configure obj st i w) = Inl e \<Longrightarrow> \<exists>m. e = AttributeError m"
  by (cases obj) (auto simp: configure_KeyValuePair configure_SecurityObject)

lemma canonical_error: "canonical symbol0 = Inl e \<Longrightarrow> \<exists>m. e = AttributeError m"
  by (auto simp: canonical_def split: if_splits option.splits)

lemma CreateOptionChain_error:
  assumes "SecurityType symbol0 = Option" and "fst (CreateOptionChain w symbol0) = Inl e"
  shows "(\<exists>m. e = AttributeError m) \<or> (\<exists>m. e = HostError m)"
proof (cases "canonical symbol0")
  case (Inl e')
  with assms canonical_error [OF Inl] show ?thesis
    by (simp add: CreateOptionChain_staged Let_def)
next
  case (Inr symbol)
  define w1 where "w1 = algorithm_Log (CreatingOptionChain (UtcTime (algorithm w)) symbol0) w"
  obtain r w2 where
    res: "resolve_security w1 symbol (effective_settings w1) (effective_initializer w1) = (r, w2)"
    by (cases "resolve_security w1 symbol (effective_settings w1) (effective_initializer w1)")
  show ?thesis
  proof (cases r)
    case (Inl e')
    with assms \<open>canonical symbol0 = Inr symbol\<close> res have "e' = e"
      by (simp add: CreateOptionChain_staged Let_def w1_def)
    moreover from res Inl
    have "fst (resolve_security w1 symbol (effective_settings w1) (effective_initializer w1)) = Inl e'"
      by simp
    from resolve_security_error [OF this] have "\<exists>m. e' = HostError m" .
    ultimately show ?thesis by blast
  next
    case (Inr obj)
    with assms \<open>canonical symbol0 = Inr symbol\<close> res
    have "fst (configure obj (effective_settings w1) (effective_initializer w1) w2) = Inl e"
      by (simp add: CreateOptionChain_staged Let_def w1_def)
    from configure_error [OF this] show ?thesis by blast
  qed
qed

lemma CreateUniverses_loop_self:
  "self (snd (snd (CreateUniverses_loop w xs seen))) = self w"
proof (induction xs)
  case Nil
  show ?case by simp
next
  case (Cons x xs)
  show ?case
    using Cons.IH CreateOptionChain_self [of w x]
    by (auto split: prod.splits sum.splits)
qed

lemma generator_next_self:
  "self (snd (snd (generator_next g w))) =
     (self w)\<lparr>nextRefreshTimeUtc := nextRefreshTimeUtc (self (snd (snd (generator_next g w))))\<rparr>"
  by (cases g)
     (simp_all add: generator_next_def CreateUniverses_loop_self algorithm_Log_def Let_def
        split: sum.splits)

lemma drain_Finished: "drain Finished w = ([], None, w)"
  by (subst drain.simps) (simp add: generator_next_def)

lemma generator_next_skip:
  "SecurityType x = Option \<Longrightarrow> Underlying x \<in> seen \<Longrightarrow>
   generator_next (Suspended (x # xs) seen) w = generator_next (Suspended xs seen) w"
  by (simp add: generator_next_def)

lemma drain_skip:
  "SecurityType x = Option \<Longrightarrow> Underlying x \<in> seen \<Longrightarrow>
   drain (Suspended (x # xs) seen) w = drain (Suspended xs seen) w"
  by (subst drain.simps, subst (2) drain.simps) (simp only: generator_next_skip)

lemma drain_Nil: "drain (Suspended [] seen) w = ([], None, w)"
  by (subst drain.simps) (simp add: generator_next_def)

lemma drain_bad:
  "SecurityType x \<noteq> Option \<Longrightarrow>
   drain (Suspended (x # xs) seen) w = ([], Some selector_error, w)"
  by (subst drain.simps) (simp add: generator_next_def selector_error_def)

lemma drain_build:
  "SecurityType x = Option \<Longrightarrow> Underlying x \<notin> seen \<Longrightarrow>
   drain (Suspended (x # xs) seen) w =
     (case CreateOptionChain w x of
        (Inl e, w') \<Rightarrow> ([], Some e, w')
      | (Inr u, w') \<Rightarrow>
          (case drain (Suspended xs (insert (Underlying x) seen)) w' of
             (us, e, w'') \<Rightarrow> (u # us, e, w'')))"
  by (subst drain.simps) (simp add: generator_next_def split: prod.splits sum.splits)

lemma refresh_result_Nil: "refresh_result w seen [] = ([], None, w)"
  by (simp add: refresh_result_def)

lemma refresh_result_bad:
  "SecurityType x \<noteq> Option \<Longrightarrow> refresh_result w seen (x # xs) = ([], Some selector_error, w)"
  by (simp add: refresh_result_def is_option_def)

lemma refresh_result_skip:
  "SecurityType x = Option \<Longrightarrow> Underlying x \<in> seen \<Longrightarrow>
   refresh_result w seen (x # xs) = refresh_result w seen xs"
  by (simp add: refresh_result_def is_option_def)

lemma refresh_result_build:
  "SecurityType x = Option \<Longrightarrow> Underlying x \<notin> seen \<Longrightarrow>
   refresh_result w seen (x # xs) =
     (case CreateOptionChain w x of
        (Inl e, w') \<Rightarrow> ([], Some e, w')
      | (Inr u, w') \<Rightarrow>
          (case refresh_result w' (insert (Underlying x) seen) xs of
             (us, e, w'') \<Rightarrow> (u # us, e, w'')))"
  by (simp add: refresh_result_def is_option_def split: prod.splits sum.splits option.splits)

lemma drain_Suspended: "drain (Suspended xs seen) w = refresh_result w seen xs"
proof (induction xs arbitrary: seen w)
  case Nil
  show ?case by (simp add: drain_Nil refresh_result_Nil)
next
  case (Cons x xs)
  show ?case
  proof (cases "SecurityType x = Option")
    case False
    then show ?thesis by (simp add: drain_bad refresh_result_bad)
  next
    case True
    show ?thesis
    proof (cases "Underlying x \<in> seen")
      case True
      with \<open>SecurityType x = Option\<close> show ?thesis
        by (simp add: drain_skip refresh_result_skip Cons.IH)
    next
      case False
      with \<open>SecurityType x = Option\<close> show ?thesis
        by (simp add: drain_build refresh_result_build Cons.IH split: prod.splits sum.splits)
    qed
  qed
qed

lemma generator_next_Created:
  "datetime_add (UtcTime (algorithm w)) (refreshInterval (self w)) = Inr s \<Longrightarrow>
   generator_next Created w =
     generator_next
       (Suspended (optionChainSymbolSelector (self w) (UtcTime (algorithm w))) {})
       (refresh_started w s)"
  by (simp add: generator_next_def refresh_started_def Let_def algorithm_Log_def)

lemma drain_Created:
  "datetime_add (UtcTime (algorithm w)) (refreshInterval (self w)) = Inr s \<Longrightarrow>
   drain Created w =
     refresh_result (refresh_started w s) {}
       (optionChainSymbolSelector (self w) (UtcTime (algorithm w)))"
  by (subst drain.simps, simp only: generator_next_Created)
     (subst drain_Suspended [symmetric], subst (2) drain.simps, rule refl)

lemma drain_Created_overflow:
  "datetime_add (UtcTime (algorithm w)) (refreshInterval (self w)) = Inl e \<Longrightarrow>
   drain Created w = ([], Some e, w)"
  by (subst drain.simps) (simp add: generator_next_def)











lemma host_kept_refl [simp]: "host_kept w w"
  by (simp add: host_kept_def)

lemma host_kept_trans: "host_kept w w' \<Longrightarrow> host_kept w' w'' \<Longrightarrow> host_kept w w''"
  by (simp add: host_kept_def)

lemma host_kept_record_call [simp]: "host_kept w (record_call c w)"
  by (simp add: host_kept_def)

lemma host_kept_update_security [simp]: "host_kept w (update_security r f w)"
  by (simp add: host_kept_def update_security_def)

lemma host_kept_self_update [simp]: "host_kept w (w\<lparr>self := m\<rparr>)"
  by (simp add: host_kept_def)

lemma CreateOptionChainSecurity_host:
  "host_kept w (snd (CreateOptionChainSecurity w symbol st i))"
  by (simp add: CreateOptionChainSecurity_def SecurityManager_CreateSecurity_def
        algorithm_Log_def Let_def host_kept_def split: sum.splits)

lemma resolve_security_host: "host_kept w (snd (resolve_security w symbol st i))"
  by (simp add: resolve_security_def CreateOptionChainSecurity_host algorithm_Log_def
        split: list.splits)

lemma configure_host: "host_kept w (snd (configure obj st i w))"
  by (cases obj)
     (simp_all add: configure_KeyValuePair configure_SecurityObject host_kept_def
        update_security_def)

lemma CreateOptionChain_host: "host_kept w (snd (CreateOptionChain w symbol0))"
proof -
  have "host_kept w1 (snd (case resolve_security w1 symbol st i of
                     (Inl e, w2) \<Rightarrow> (Inl e, w2)
                   | (Inr optionChain, w2) \<Rightarrow> configure optionChain st i w2))"
    for w1 symbol st i
  proof (cases "resolve_security w1 symbol st i")
    case (Pair r w2)
    with resolve_security_host [of w1 symbol st i] have k: "host_kept w1 w2" by simp
    show ?thesis
    proof (cases r)
      case (Inl e)
      with Pair k show ?thesis by simp
    next
      case (Inr obj)
      from k configure_host [of w2 obj st i] have "host_kept w1 (snd (configure obj st i w2))"
        by (rule host_kept_trans)
      with Pair Inr show ?thesis by simp
    qed
  qed
  from host_kept_trans [OF _ this] show ?thesis
    by (simp add: CreateOptionChain_staged Let_def algorithm_Log_def split: sum.splits)
qed

lemma CreateUniverses_loop_host:
  "host_kept w (snd (snd (CreateUniverses_loop w xs seen)))"
proof (induction xs)
  case Nil
  show ?case by simp
next
  case (Cons x xs)
  show ?case
    using Cons.IH CreateOptionChain_host [of w x]
    by (auto split: prod.splits sum.splits)
qed

lemma generator_next_host: "host_kept w (snd (snd (generator_next g w)))"
proof (cases g)
  case Created
  have "host_kept w (snd (snd (CreateUniverses_loop (refresh_started w s) xs {})))" for s xs
    by (rule host_kept_trans [OF _ CreateUniverses_loop_host])
       (simp add: refresh_started_def algorithm_Log_def host_kept_def)
  then show ?thesis
    using Created
    by (simp add: generator_next_def Let_def refresh_started_def split: sum.splits)
qed (simp_all add: generator_next_def CreateUniverses_loop_host)


lemma build_chains_self: "self (snd (snd (build_chains w ss))) = self w"
proof (induction ss arbitrary: w)
  case Nil
  show ?case by simp
next
  case (Cons a ss)
  show ?case
    using CreateOptionChain_self [of w a] Cons.IH [of "snd (CreateOptionChain w a)"]
    by (auto split: prod.splits sum.splits)
qed

lemma refresh_result_world:
  "snd (snd (refresh_result w seen xs)) =
     snd (snd (build_chains w (first_seen seen (takeWhile is_option xs))))"
  by (simp add: refresh_result_def split: prod.splits option.splits)

lemma drain_cases:
  "drain g w =
     (case g of
        Created \<Rightarrow>
          (case datetime_add (UtcTime (algorithm w)) (refreshInterval (self w)) of
             Inl e \<Rightarrow> ([], Some e, w)
           | Inr s \<Rightarrow>
               refresh_result (refresh_started w s) {}
                 (optionChainSymbolSelector (self w) (UtcTime (algorithm w))))
      | Suspended xs seen \<Rightarrow> refresh_result w seen xs
      | Finished \<Rightarrow> ([], None, w))"
  by (simp add: drain_Created drain_Created_overflow drain_Suspended drain_Finished
        split: Generator.splits sum.splits)



lemma drain_self:
  "self (snd (snd (drain g w))) =
     (self w)\<lparr>nextRefreshTimeUtc := nextRefreshTimeUtc (self (snd (snd (drain g w))))\<rparr>"
  by (simp add: drain_cases refresh_result_world build_chains_self refresh_started_def
        algorithm_Log_def split: Generator.splits sum.splits)

lemma datetime_add_error:
  "datetime_add dt td = Inl e \<Longrightarrow> \<exists>m. e = OverflowError m"
  by (auto simp: datetime_add_def Let_def split: if_splits)

lemma CreateUniverses_loop_error:
  "fst (CreateUniverses_loop w xs seen) = Raise e \<Longrightarrow>
   e = selector_error \<or> (\<exists>m. e = AttributeError m) \<or> (\<exists>m. e = HostError m)"
proof (induction xs)
  case Nil
  then show ?case by simp
next
  case (Cons x xs)
  show ?case
  proof (cases "SecurityType x = Option \<and> Underlying x \<notin> seen")
    case True
    with Cons.prems have "fst (CreateOptionChain w x) = Inl e"
      by (auto split: prod.splits sum.splits)
    with True CreateOptionChain_error [of x w e] show ?thesis by blast
  next
    case False
    with Cons show ?thesis by (auto simp: selector_error_def split: if_splits)
  qed
qed

lemma generator_next_error:
  "fst (generator_next g w) = Raise e \<Longrightarrow>
   e = selector_error \<or> (\<exists>m. e = AttributeError m) \<or> (\<exists>m. e = HostError m) \<or>
   (\<exists>m. e = OverflowError m)"
  by (cases g)
     (auto simp: generator_next_def Let_def split: sum.splits
        dest: CreateUniverses_loop_error datetime_add_error)

lemma first_seen_subset: "set (first_seen seen xs) \<subseteq> set xs"
  by (induction xs arbitrary: seen) auto

lemma build_chains_error:
  "\<forall>s\<in>set ss. SecurityType s = Option \<Longrightarrow> fst (snd (build_chains w ss)) = Some e \<Longrightarrow>
   (\<exists>m. e = AttributeError m) \<or> (\<exists>m. e = HostError m)"
proof (induction ss arbitrary: w)
  case Nil
  then show ?case by simp
next
  case (Cons a ss)
  show ?case
  proof (cases "CreateOptionChain w a")
    case (Pair r w')
    show ?thesis
    proof (cases r)
      case (Inl e')
      with Pair Cons.prems have "fst (CreateOptionChain w a) = Inl e" by simp
      with Cons.prems CreateOptionChain_error [of a w e] show ?thesis by simp
    next
      case (Inr u)
      with Pair Cons.prems have "fst (snd (build_chains w' ss)) = Some e"
        by (simp split: prod.splits)
      with Cons.prems Cons.IH [of w'] show ?thesis by simp
    qed
  qed
qed

lemma refresh_result_error:
  assumes "fst (snd (refresh_result w seen xs)) = Some e"
  shows "e = selector_error \<or> (\<exists>m. e = AttributeError m) \<or> (\<exists>m. e = HostError m)"
proof -
  let ?ss = "first_seen seen (takeWhile is_option xs)"
  have opt: "\<forall>s\<in>set ?ss. SecurityType s = Option"
  proof
    fix s assume "s \<in> set ?ss"
    with first_seen_subset [of seen "takeWhile is_option xs"]
    have "s \<in> set (takeWhile is_option xs)" by blast
    from set_takeWhileD [OF this] show "SecurityType s = Option"
      by (simp add: is_option_def)
  qed
  show ?thesis
  proof (cases "fst (snd (build_chains w ?ss))")
    case None
    with assms show ?thesis
      by (auto simp: refresh_result_def split: prod.splits option.splits if_splits)
  next
    case (Some e')
    with assms have "e' = e"
      by (auto simp: refresh_result_def split: prod.splits option.splits)
    with Some build_chains_error [OF opt, of w e] show ?thesis by simp
  qed
qed

lemma drain_error:
  "fst (snd (drain g w)) = Some e \<Longrightarrow>
   e = selector_error \<or> (\<exists>m. e = AttributeError m) \<or> (\<exists>m. e = HostError m) \<or>
   (\<exists>m. e = OverflowError m)"
  by (cases g)
     (auto simp: drain_cases split: sum.splits
        dest: refresh_result_error datetime_add_error)

lemma CreateOptionChain_builds:
  assumes "SecurityType symbol0 = Option"
    and "canonical symbol0 = Inr symbol"
    and "filter (\<lambda>s. fst s = symbol) (Securities (algorithm w)) = []"
    and "MarketHoursDatabase (algorithm w) (Market symbol) (Underlying symbol) Option = Some e"
    and "SymbolPropertiesDatabase (algorithm w) (Market symbol) (Underlying symbol) Option
           (AccountCurrency (algorithm w)) = Some p"
  shows "CreateOptionChain w symbol0 =
     (Inr \<lparr>universe_option = SecurityObject (length (heap (algorithm w))),
           universe_settings = effective_settings w,
           universe_initializer = effective_initializer w,
           universe_liveMode = LiveMode (algorithm w)\<rparr>,
      w\<lparr>algorithm := (algorithm w)
         \<lparr>heap := heap (algorithm w) @
              [(new_security symbol e p (effective_settings w) (effective_initializer w)
                  (LiveMode (algorithm w)))
                 \<lparr>ContractFilter := Some SelfFilter, IsTradable := False\<rparr>],
          calls := calls (algorithm w) @
              [Log (CreatingOptionChain (UtcTime (algorithm w)) symbol0),
               Log (CreatingOptionChainSecurity (UtcTime (algorithm w)) symbol),
               CreateSecurity (length (heap (algorithm w))),
               SetFilter (SecurityObject (length (heap (algorithm w)))) SelfFilter,
               SetIsTradable (SecurityObject (length (heap (algorithm w)))) False]\<rparr>\<rparr>)"
  using assms
  by (simp add: CreateOptionChain_staged Let_def resolve_security_def algorithm_Log_def
        CreateOptionChainSecurity_def MarketHoursDatabase_GetEntry_def
        SymbolPropertiesDatabase_GetSymbolProperties_def SecurityManager_CreateSecurity_def
        configure_SecurityObject record_call_def update_security_def new_security_def
        effective_settings_def effective_initializer_def split: option.splits)

lemma CreateOptionChain_registered:
  assumes "SecurityType symbol0 = Option"
    and "canonical symbol0 = Inr symbol"
    and "filter (\<lambda>s. fst s = symbol) (Securities (algorithm w)) \<noteq> []"
  shows "CreateOptionChain w symbol0 =
     (Inl (AttributeError ''SetFilter''),
      algorithm_Log (ResolvedExistingOptionChainSecurity (UtcTime (algorithm w)) symbol)
        (algorithm_Log (CreatingOptionChain (UtcTime (algorithm w)) symbol0) w))"
  using assms
  by (simp add: CreateOptionChain_staged Let_def resolve_security_def algorithm_Log_def
        configure_KeyValuePair split: list.splits)

lemma scenario_canonical: "canonical AAPL_call = Inr AAPL_chain"
  by (simp add: canonical_def AAPL_call_def AAPL_chain_def AAPL_def Symbol_Create_def)

lemma AAPL_call_builds:
  assumes "Securities (algorithm w) = []"
    and "MarketHoursDatabase (algorithm w) = usa_market_hours"
    and "SymbolPropertiesDatabase (algorithm w) = usa_symbol_properties"
  shows "CreateOptionChain w AAPL_call =
     (Inr \<lparr>universe_option = SecurityObject (length (heap (algorithm w))),
           universe_settings = effective_settings w,
           universe_initializer = effective_initializer w,
           universe_liveMode = LiveMode (algorithm w)\<rparr>,
      w\<lparr>algorithm := (algorithm w)
         \<lparr>heap := heap (algorithm w) @
              [(new_security AAPL_chain \<lparr>ExchangeHours = 7, DataTimeZone = 5\<rparr> 3
                  (effective_settings w) (effective_initializer w) (LiveMode (algorithm w)))
                 \<lparr>ContractFilter := Some SelfFilter, IsTradable := False\<rparr>],
          calls := calls (algorithm w) @
              [Log (CreatingOptionChain (UtcTime (algorithm w)) AAPL_call),
               Log (CreatingOptionChainSecurity (UtcTime (algorithm w)) AAPL_chain),
               CreateSecurity (length (heap (algorithm w))),
               SetFilter (SecurityObject (length (heap (algorithm w)))) SelfFilter,
               SetIsTradable (SecurityObject (length (heap (algorithm w)))) False]\<rparr>\<rparr>)"
proof (rule CreateOptionChain_builds)
  show "SecurityType AAPL_call = Option" by (simp add: AAPL_call_def)
  show "canonical AAPL_call = Inr AAPL_chain" by (rule scenario_canonical)
  show "filter (\<lambda>s. fst s = AAPL_chain) (Securities (algorithm w)) = []"
    using assms by simp
  show "MarketHoursDatabase (algorithm w) (Market AAPL_chain) (Underlying AAPL_chain) Option =
          Some \<lparr>ExchangeHours = 7, DataTimeZone = 5\<rparr>"
    using assms by (simp add: usa_market_hours_def AAPL_chain_def)
  show "SymbolPropertiesDatabase (algorithm w) (Market AAPL_chain) (Underlying AAPL_chain) Option
          (AccountCurrency (algorithm w)) = Some 3"
    using assms by (simp add: usa_symbol_properties_def AAPL_chain_def)
qed

lemma CreateUniverses_loop_Yield:
  "fst (CreateUniverses_loop w xs seen) = Yield u \<Longrightarrow>
   \<exists>x\<in>set xs. fst (CreateOptionChain w x) = Inr u"
  by (induction xs) (auto split: if_splits prod.splits sum.splits)

lemma effective_settings_started [simp]:
  "effective_settings (refresh_started w s) = effective_settings w"
  by (simp add: effective_settings_def refresh_started_def algorithm_Log_def
        split: option.splits)

lemma effective_initializer_started [simp]:
  "effective_initializer (refresh_started w s) = effective_initializer w"
  by (simp add: effective_initializer_def refresh_started_def algorithm_Log_def
        split: option.splits)

lemma CreateOptionChain_settings:
  assumes "fst (CreateOptionChain w symbol) = Inr u"
  shows "universe_settings u = effective_settings w \<and>
         universe_initializer u = effective_initializer w"
proof -
  from assms have "CreateOptionChain w symbol = (Inr u, snd (CreateOptionChain w symbol))"
    by (metis prod.collapse)
  from CreateOptionChain_Inr [OF this] show ?thesis by auto
qed

lemma generator_next_Yield:
  assumes "fst (generator_next g w) = Yield u"
  shows "universe_settings u = effective_settings w \<and>
         universe_initializer u = effective_initializer w"
proof (cases g)
  case Created
  with assms obtain s where
    s: "datetime_add (UtcTime (algorithm w)) (refreshInterval (self w)) = Inr s"
    by (cases "datetime_add (UtcTime (algorithm w)) (refreshInterval (self w))")
       (simp_all add: generator_next_def)
  with assms Created have
    "fst (CreateUniverses_loop (refresh_started w s)
            (optionChainSymbolSelector (self w) (UtcTime (algorithm w))) {}) = Yield u"
    by (simp add: generator_next_def Let_def refresh_started_def algorithm_Log_def)
  from CreateUniverses_loop_Yield [OF this] CreateOptionChain_settings
  show ?thesis by fastforce
next
  case (Suspended xs seen)
  with assms have "fst (CreateUniverses_loop w xs seen) = Yield u"
    by (simp add: generator_next_def)
  from CreateUniverses_loop_Yield [OF this] CreateOptionChain_settings
  show ?thesis by fastforce
next
  case Finished
  with assms show ?thesis by (simp add: generator_next_def)
qed

lemma changed_default_builds:
  "fst (CreateOptionChain changed_default AAPL_call) =
     Inr \<lparr>universe_option = SecurityObject 0, universe_settings = daily_settings,
          universe_initializer = SecurityInitializer 1, universe_liveMode = False\<rparr>"
  by (subst AAPL_call_builds)
     (simp_all add: changed_default_def scenario_def host_def init_def effective_settings_def
        effective_initializer_def)

lemma explicit_settings_builds:
  "fst (CreateOptionChain explicit_settings AAPL_call) =
     Inr \<lparr>universe_option = SecurityObject 0, universe_settings = daily_settings,
          universe_initializer = SecurityInitializer 2, universe_liveMode = False\<rparr>"
  by (subst AAPL_call_builds)
     (simp_all add: explicit_settings_def host_def init_def effective_settings_def
        effective_initializer_def)

lemma CreateOptionChain_Inr_fst:
  assumes "fst (CreateOptionChain w symbol0) = Inr u"
  shows "CreateOptionChain w symbol0 = (Inr u, snd (CreateOptionChain w symbol0))"
  using assms by (metis prod.collapse)

lemma canonical_Inr:
  "canonical symbol0 = Inr c \<Longrightarrow>
   (IsCanonical symbol0 \<and> c = symbol0) \<or>
   (\<not> IsCanonical symbol0 \<and>
    (\<exists>ux. Underlying symbol0 = Some ux \<and>
          c = Symbol_Create (Value ux) Option (Market symbol0) (CHR ''?'' # Value ux)))"
  by (auto simp: canonical_def split: if_splits option.splits)

lemma generator_next_Created_self:
  assumes "datetime_add (UtcTime (algorithm w)) (refreshInterval (self w)) = Inr s"
  shows "self (snd (snd (generator_next Created w))) =
           (self w)\<lparr>nextRefreshTimeUtc := DateValue (datetime_date s)\<rparr>"
  using assms
  by (simp add: generator_next_def Let_def CreateUniverses_loop_self algorithm_Log_def)

lemma drain_Created_self:
  assumes "datetime_add (UtcTime (algorithm w)) (refreshInterval (self w)) = Inr s"
  shows "self (snd (snd (drain Created w))) =
           (self w)\<lparr>nextRefreshTimeUtc := DateValue (datetime_date s)\<rparr>"
  using assms
  by (simp add: drain_Created refresh_result_world build_chains_self refresh_started_def
        algorithm_Log_def)

lemma datetime_add_date:
  assumes "datetime_add t d = Inr s"
  shows "datetime_date s =
           date ((ordinal t * US_PER_DAY + usec t + total_microseconds d) div US_PER_DAY)"
  using assms
  by (auto simp: datetime_add_def datetime_date_def Let_def split: if_splits)

lemma registered_canonical: "canonical AAPL_chain = Inr AAPL_chain"
  by (simp add: canonical_def AAPL_chain_def)













section \<open>The properties of the specification\<close>

subsection \<open>The next refresh time\<close>

text \<open>
  C1, as amended. \<open>CreateUniverses\<close> is a generator, so the call by itself runs no
  statement of the body and leaves \<^verbatim>\<open>nextRefreshTimeUtc\<close> as it was. The assignment
  runs at the first \<^verbatim>\<open>next\<close>. When the sum of the host's time and the interval is a
  \<^verbatim>\<open>datetime\<close>, then after the first \<^verbatim>\<open>next\<close>, whatever its outcome, and after the
  generator has been consumed, \<open>GetNextRefreshTimeUtc\<close> returns the date of that sum:
  the day number of the sum, the time of day dropped, for every time of day of the
  host's clock. When the sum is out of the range of \<^verbatim>\<open>datetime\<close>, the first \<^verbatim>\<open>next\<close>
  raises \<^verbatim>\<open>OverflowError\<close> and changes nothing.
\<close>

theorem nextRefreshTimeUtc_after_first_next:
  "fst (GetNextRefreshTimeUtc (snd (CreateUniverses w))) = nextRefreshTimeUtc (self w) \<and>
   (datetime_add (UtcTime (algorithm w)) (refreshInterval (self w)) = Inr s \<longrightarrow>
      fst (GetNextRefreshTimeUtc
             (snd (snd (generator_next (fst (CreateUniverses w)) (snd (CreateUniverses w)))))) =
        DateValue (datetime_date s) \<and>
      fst (GetNextRefreshTimeUtc
             (snd (snd (drain (fst (CreateUniverses w)) (snd (CreateUniverses w)))))) =
        DateValue (datetime_date s) \<and>
      datetime_date s =
        date ((ordinal (UtcTime (algorithm w)) * US_PER_DAY + usec (UtcTime (algorithm w)) +
               total_microseconds (refreshInterval (self w))) div US_PER_DAY)) \<and>
   (datetime_add (UtcTime (algorithm w)) (refreshInterval (self w)) = Inl e \<longrightarrow>
      generator_next (fst (CreateUniverses w)) (snd (CreateUniverses w)) =
        (Raise e, Finished, w))"
proof (intro conjI impI)
  show "fst (GetNextRefreshTimeUtc (snd (CreateUniverses w))) = nextRefreshTimeUtc (self w)"
    by (simp add: GetNextRefreshTimeUtc_def CreateUniverses_def)
next
  assume s: "datetime_add (UtcTime (algorithm w)) (refreshInterval (self w)) = Inr s"
  show "fst (GetNextRefreshTimeUtc
             (snd (snd (generator_next (fst (CreateUniverses w)) (snd (CreateUniverses w)))))) =
        DateValue (datetime_date s)"
    by (simp add: GetNextRefreshTimeUtc_def CreateUniverses_def
          generator_next_Created_self [OF s])
  show "fst (GetNextRefreshTimeUtc
             (snd (snd (drain (fst (CreateUniverses w)) (snd (CreateUniverses w)))))) =
        DateValue (datetime_date s)"
    by (simp add: GetNextRefreshTimeUtc_def CreateUniverses_def drain_Created_self [OF s])
  show "datetime_date s =
        date ((ordinal (UtcTime (algorithm w)) * US_PER_DAY + usec (UtcTime (algorithm w)) +
               total_microseconds (refreshInterval (self w))) div US_PER_DAY)"
    by (rule datetime_add_date [OF s])
next
  assume "datetime_add (UtcTime (algorithm w)) (refreshInterval (self w)) = Inl e"
  then show "generator_next (fst (CreateUniverses w)) (snd (CreateUniverses w)) =
        (Raise e, Finished, w)"
    by (simp add: CreateUniverses_def generator_next_def)
qed

theorem nextRefreshTimeUtc_after_first_next_witness:
  "datetime_add (UtcTime (algorithm scenario)) (refreshInterval (self scenario)) =
     Inr \<lparr>ordinal = 737001, usec = 34200000000\<rparr> \<and>
   fst (GetNextRefreshTimeUtc
          (snd (snd (generator_next (fst (CreateUniverses scenario))
                       (snd (CreateUniverses scenario)))))) = DateValue (date 737001) \<and>
   fst (GetNextRefreshTimeUtc
          (snd (snd (drain (fst (CreateUniverses scenario))
                       (snd (CreateUniverses scenario)))))) = DateValue (date 737001)"
proof -
  have h: "datetime_add (UtcTime (algorithm scenario)) (refreshInterval (self scenario)) =
     Inr \<lparr>ordinal = 737001, usec = 34200000000\<rparr>"
    by (simp add: scenario_def host_def init_def half_past_nine_def one_day_def
          datetime_add_def total_microseconds_def US_PER_DAY_def MAXORDINAL_def)
  from nextRefreshTimeUtc_after_first_next
         [of scenario "\<lparr>ordinal = 737001, usec = 34200000000\<rparr>"] h
  show ?thesis by (simp add: datetime_date_def)
qed

theorem refresh_call_alone_counterexample:
  "datetime_add (UtcTime (algorithm scenario)) (refreshInterval (self scenario)) =
     Inr \<lparr>ordinal = 737001, usec = 34200000000\<rparr> \<and>
   fst (GetNextRefreshTimeUtc (snd (CreateUniverses scenario))) = DateTimeValue datetime_min \<and>
   DateTimeValue datetime_min \<noteq> DateValue (datetime_date \<lparr>ordinal = 737001, usec = 34200000000\<rparr>) \<and>
   generator_next (fst (CreateUniverses end_of_time)) (snd (CreateUniverses end_of_time)) =
     (Raise (OverflowError ''date value out of range''), Finished, end_of_time) \<and>
   fst (GetNextRefreshTimeUtc end_of_time) = DateTimeValue datetime_min"
  by (simp add: scenario_def host_def init_def half_past_nine_def one_day_def
        datetime_add_def total_microseconds_def US_PER_DAY_def MAXORDINAL_def
        GetNextRefreshTimeUtc_def CreateUniverses_def end_of_time_def generator_next_def)

subsection \<open>One chain for each underlying\<close>



subsection \<open>A symbol that is not an option\<close>



subsection \<open>The canonical symbol\<close>

text \<open>
  C4. When \<open>CreateOptionChain\<close> returns a universe, the universe wraps the security
  that the call allocated, and the symbol of that security is canonical in both cases.
  For a symbol that is not canonical it is the symbol that \<^verbatim>\<open>Symbol.Create\<close> makes from
  the display value of the underlying, the type Option, the market of the given symbol
  and the alias ``?'' followed by that display value; its display value is that alias
  and its market is the market of the given symbol. A symbol that is already canonical
  is used as it is.
\<close>

theorem chain_symbol_canonical:
  assumes "fst (CreateOptionChain w symbol) = Inr u"
  shows "universe_option u = SecurityObject (length (heap (algorithm w))) \<and>
         (\<not> IsCanonical symbol \<longrightarrow>
            (\<exists>ux. Underlying symbol = Some ux \<and>
               SecuritySymbol (heap (algorithm (snd (CreateOptionChain w symbol))) !
                                 length (heap (algorithm w))) =
                 Symbol_Create (Value ux) Option (Market symbol) (CHR ''?'' # Value ux) \<and>
               Value (Symbol_Create (Value ux) Option (Market symbol) (CHR ''?'' # Value ux)) =
                 CHR ''?'' # Value ux \<and>
               Market (Symbol_Create (Value ux) Option (Market symbol) (CHR ''?'' # Value ux)) =
                 Market symbol \<and>
               IsCanonical
                 (Symbol_Create (Value ux) Option (Market symbol) (CHR ''?'' # Value ux)))) \<and>
         (IsCanonical symbol \<longrightarrow>
            SecuritySymbol (heap (algorithm (snd (CreateOptionChain w symbol))) !
                              length (heap (algorithm w))) = symbol)"
proof -
  from CreateOptionChain_Inr [OF CreateOptionChain_Inr_fst [OF assms]]
  obtain c e p where
    can: "canonical symbol = Inr c"
    and u: "u = \<lparr>universe_option = SecurityObject (length (heap (algorithm w))),
                 universe_settings = effective_settings w,
                 universe_initializer = effective_initializer w,
                 universe_liveMode = LiveMode (algorithm w)\<rparr>"
    and a: "algorithm (snd (CreateOptionChain w symbol)) = (algorithm w)
             \<lparr>heap := heap (algorithm w) @
                  [(new_security c e p (effective_settings w) (effective_initializer w)
                      (LiveMode (algorithm w)))
                     \<lparr>ContractFilter := Some SelfFilter, IsTradable := False\<rparr>],
              calls := calls (algorithm w) @
                  [Log (CreatingOptionChain (UtcTime (algorithm w)) symbol),
                   Log (CreatingOptionChainSecurity (UtcTime (algorithm w)) c),
                   CreateSecurity (length (heap (algorithm w))),
                   SetFilter (SecurityObject (length (heap (algorithm w)))) SelfFilter,
                   SetIsTradable (SecurityObject (length (heap (algorithm w)))) False]\<rparr>"
    by auto
  from a have sym:
    "SecuritySymbol (heap (algorithm (snd (CreateOptionChain w symbol))) !
                       length (heap (algorithm w))) = c"
    by (simp add: new_security_def)
  from canonical_Inr [OF can] sym u show ?thesis
    by (auto simp: Symbol_Create_def)
qed

theorem chain_symbol_canonical_witness:
  "fst (CreateOptionChain scenario AAPL_call) =
     Inr \<lparr>universe_option = SecurityObject 0, universe_settings = minute_settings,
          universe_initializer = SecurityInitializer 0, universe_liveMode = False\<rparr> \<and>
   \<not> IsCanonical AAPL_call \<and> Underlying AAPL_call = Some AAPL \<and>
   Value AAPL = ''AAPL'' \<and> Market AAPL_call = ''usa'' \<and>
   SecuritySymbol (heap (algorithm (snd (CreateOptionChain scenario AAPL_call))) ! 0) =
     Symbol_Create ''AAPL'' Option ''usa'' ''?AAPL'' \<and>
   Value (Symbol_Create ''AAPL'' Option ''usa'' ''?AAPL'') = ''?AAPL'' \<and>
   Market (Symbol_Create ''AAPL'' Option ''usa'' ''?AAPL'') = ''usa'' \<and>
   IsCanonical (Symbol_Create ''AAPL'' Option ''usa'' ''?AAPL'')"
proof -
  have b: "fst (CreateOptionChain scenario AAPL_call) =
     Inr \<lparr>universe_option = SecurityObject 0, universe_settings = minute_settings,
          universe_initializer = SecurityInitializer 0, universe_liveMode = False\<rparr>"
    by (subst AAPL_call_builds)
       (simp_all add: scenario_def host_def init_def effective_settings_def
          effective_initializer_def)
  have h: "length (heap (algorithm scenario)) = 0"
    by (simp add: scenario_def host_def)
  from chain_symbol_canonical [OF b] b h show ?thesis
    by (simp add: AAPL_call_def AAPL_def)
qed

subsection \<open>A symbol that is already registered\<close>

text \<open>
  C5. The registry of the host \<open>registered\<close> holds the canonical Apple chain, with its
  security at address 0. \<open>CreateOptionChain\<close> finds the entry and logs that it resolved
  the existing security, but it binds \<^verbatim>\<open>optionChain\<close> to the key/value pair of the
  registry and not to the security that is the pair's value, so the call of
  \<^verbatim>\<open>SetFilter\<close> raises \<^verbatim>\<open>AttributeError\<close>: no universe is returned, for the canonical
  symbol and for a contract of the same chain alike, and a refresh whose selector
  returns the contract ends with that error. No security is created on this path and
  the existing one is left as it was.
\<close>

theorem registered_chain_raises:
  "IsCanonical AAPL_chain \<and>
   Securities (algorithm registered) = [(AAPL_chain, 0)] \<and>
   CreateOptionChain registered AAPL_chain =
     (Inl (AttributeError ''SetFilter''),
      registered\<lparr>algorithm := (algorithm registered)
        \<lparr>calls := [Log (CreatingOptionChain half_past_nine AAPL_chain),
                   Log (ResolvedExistingOptionChainSecurity half_past_nine AAPL_chain)]\<rparr>\<rparr>) \<and>
   fst (CreateOptionChain registered AAPL_call) = Inl (AttributeError ''SetFilter'') \<and>
   fst (drain Created registered) = [] \<and>
   fst (snd (drain Created registered)) = Some (AttributeError ''SetFilter'')"
proof (intro conjI)
  show "IsCanonical AAPL_chain" by (simp add: AAPL_chain_def)
  show "Securities (algorithm registered) = [(AAPL_chain, 0)]"
    by (simp add: registered_def host_def)
  have t: "SecurityType AAPL_chain = Option" by (simp add: AAPL_chain_def)
  have f: "filter (\<lambda>s. fst s = AAPL_chain) (Securities (algorithm registered)) \<noteq> []"
    by (simp add: registered_def host_def)
  show "CreateOptionChain registered AAPL_chain =
     (Inl (AttributeError ''SetFilter''),
      registered\<lparr>algorithm := (algorithm registered)
        \<lparr>calls := [Log (CreatingOptionChain half_past_nine AAPL_chain),
                   Log (ResolvedExistingOptionChainSecurity half_past_nine AAPL_chain)]\<rparr>\<rparr>)"
    by (simp add: CreateOptionChain_registered [OF t registered_canonical f])
       (simp add: registered_def host_def algorithm_Log_def record_call_def)
  have t': "SecurityType AAPL_call = Option" by (simp add: AAPL_call_def)
  note r = CreateOptionChain_registered [OF t' scenario_canonical f]
  show "fst (CreateOptionChain registered AAPL_call) = Inl (AttributeError ''SetFilter'')"
    by (simp add: r)
  have s: "datetime_add (UtcTime (algorithm registered)) (refreshInterval (self registered)) =
     Inr \<lparr>ordinal = 737001, usec = 34200000000\<rparr>"
    by (simp add: registered_def scenario_def host_def init_def half_past_nine_def one_day_def
          datetime_add_def total_microseconds_def US_PER_DAY_def MAXORDINAL_def)
  have sel: "optionChainSymbolSelector (self registered) (UtcTime (algorithm registered)) =
               [AAPL_call, AAPL_put, MSFT]"
    by (simp add: registered_def scenario_def init_def scenario_selector_def)
  have f': "filter (\<lambda>s. fst s = AAPL_chain)
              (Securities (algorithm (refresh_started registered
                 \<lparr>ordinal = 737001, usec = 34200000000\<rparr>))) \<noteq> []"
    by (simp add: registered_def host_def refresh_started_def algorithm_Log_def)
  note r' = CreateOptionChain_registered [OF t' scenario_canonical f']
  have d: "drain Created registered =
     refresh_result (refresh_started registered \<lparr>ordinal = 737001, usec = 34200000000\<rparr>) {}
       [AAPL_call, AAPL_put, MSFT]"
    by (simp add: drain_Created [OF s] sel)
  have "SecurityType AAPL_call = Option" "Underlying AAPL_call \<notin> {}"
    by (simp_all add: AAPL_call_def)
  then have rr: "refresh_result
       (refresh_started registered \<lparr>ordinal = 737001, usec = 34200000000\<rparr>) {}
       [AAPL_call, AAPL_put, MSFT] =
     ([], Some (AttributeError ''SetFilter''),
      snd (CreateOptionChain
             (refresh_started registered \<lparr>ordinal = 737001, usec = 34200000000\<rparr>)
             AAPL_call))"
    by (simp add: refresh_result_build r')
  show "fst (drain Created registered) = []" by (simp add: d rr)
  show "fst (snd (drain Created registered)) = Some (AttributeError ''SetFilter'')"
    by (simp add: d rr)
qed

subsection \<open>The configuration of the chain security\<close>

text \<open>
  C6. When \<open>CreateOptionChain\<close> returns a universe, the security it wraps is not
  tradable and its contract filter is the bound method \<^verbatim>\<open>self.Filter\<close>, which is the
  no-op \<open>Filter\<close> of the class. The last two calls into the host are, in this order,
  the \<^verbatim>\<open>SetFilter\<close> on that security and the assignment of \<^verbatim>\<open>False\<close> to its
  \<^verbatim>\<open>IsTradable\<close>: the flag is cleared after the filter is attached, and nothing is done
  to the security afterwards.
\<close>

theorem chain_security_configured:
  assumes "fst (CreateOptionChain w symbol) = Inr u"
  shows "universe_option u = SecurityObject (length (heap (algorithm w))) \<and>
         length (heap (algorithm w)) < length (heap (algorithm (snd (CreateOptionChain w symbol)))) \<and>
         IsTradable (heap (algorithm (snd (CreateOptionChain w symbol))) !
                       length (heap (algorithm w))) = False \<and>
         ContractFilter (heap (algorithm (snd (CreateOptionChain w symbol))) !
                           length (heap (algorithm w))) = Some SelfFilter \<and>
         call_method SelfFilter w' x = Filter w' x \<and>
         (\<exists>before. calls (algorithm (snd (CreateOptionChain w symbol))) =
            before @
            [SetFilter (SecurityObject (length (heap (algorithm w)))) SelfFilter,
             SetIsTradable (SecurityObject (length (heap (algorithm w)))) False])"
proof -
  from CreateOptionChain_Inr [OF CreateOptionChain_Inr_fst [OF assms]]
  obtain c e p where
    u: "u = \<lparr>universe_option = SecurityObject (length (heap (algorithm w))),
                 universe_settings = effective_settings w,
                 universe_initializer = effective_initializer w,
                 universe_liveMode = LiveMode (algorithm w)\<rparr>"
    and a: "algorithm (snd (CreateOptionChain w symbol)) = (algorithm w)
             \<lparr>heap := heap (algorithm w) @
                  [(new_security c e p (effective_settings w) (effective_initializer w)
                      (LiveMode (algorithm w)))
                     \<lparr>ContractFilter := Some SelfFilter, IsTradable := False\<rparr>],
              calls := calls (algorithm w) @
                  [Log (CreatingOptionChain (UtcTime (algorithm w)) symbol),
                   Log (CreatingOptionChainSecurity (UtcTime (algorithm w)) c),
                   CreateSecurity (length (heap (algorithm w))),
                   SetFilter (SecurityObject (length (heap (algorithm w)))) SelfFilter,
                   SetIsTradable (SecurityObject (length (heap (algorithm w)))) False]\<rparr>"
    by auto
  have "calls (algorithm (snd (CreateOptionChain w symbol))) =
          (calls (algorithm w) @
            [Log (CreatingOptionChain (UtcTime (algorithm w)) symbol),
             Log (CreatingOptionChainSecurity (UtcTime (algorithm w)) c),
             CreateSecurity (length (heap (algorithm w)))]) @
          [SetFilter (SecurityObject (length (heap (algorithm w)))) SelfFilter,
           SetIsTradable (SecurityObject (length (heap (algorithm w)))) False]"
    by (simp add: a)
  then have "\<exists>before. calls (algorithm (snd (CreateOptionChain w symbol))) =
            before @
            [SetFilter (SecurityObject (length (heap (algorithm w)))) SelfFilter,
             SetIsTradable (SecurityObject (length (heap (algorithm w)))) False]"
    by (rule exI)
  with u a show ?thesis
    by (simp add: call_method_def)
qed

theorem chain_security_configured_witness:
  "fst (CreateOptionChain scenario AAPL_call) =
     Inr \<lparr>universe_option = SecurityObject 0, universe_settings = minute_settings,
          universe_initializer = SecurityInitializer 0, universe_liveMode = False\<rparr> \<and>
   IsTradable (heap (algorithm (snd (CreateOptionChain scenario AAPL_call))) ! 0) = False \<and>
   ContractFilter (heap (algorithm (snd (CreateOptionChain scenario AAPL_call))) ! 0) =
     Some SelfFilter \<and>
   calls (algorithm (snd (CreateOptionChain scenario AAPL_call))) =
     [Log (CreatingOptionChain half_past_nine AAPL_call),
      Log (CreatingOptionChainSecurity half_past_nine AAPL_chain),
      CreateSecurity 0,
      SetFilter (SecurityObject 0) SelfFilter,
      SetIsTradable (SecurityObject 0) False]"
proof -
  have p: "Securities (algorithm scenario) = []"
    "MarketHoursDatabase (algorithm scenario) = usa_market_hours"
    "SymbolPropertiesDatabase (algorithm scenario) = usa_symbol_properties"
    by (simp_all add: scenario_def host_def)
  have h: "length (heap (algorithm scenario)) = 0" "calls (algorithm scenario) = []"
    "UtcTime (algorithm scenario) = half_past_nine"
    "effective_settings scenario = minute_settings"
    "effective_initializer scenario = SecurityInitializer 0"
    "LiveMode (algorithm scenario) = False"
    by (simp_all add: scenario_def host_def init_def effective_settings_def
          effective_initializer_def)
  have b: "fst (CreateOptionChain scenario AAPL_call) =
     Inr \<lparr>universe_option = SecurityObject 0, universe_settings = minute_settings,
          universe_initializer = SecurityInitializer 0, universe_liveMode = False\<rparr>"
    by (simp add: AAPL_call_builds [OF p] h)
  have c: "calls (algorithm (snd (CreateOptionChain scenario AAPL_call))) =
     [Log (CreatingOptionChain half_past_nine AAPL_call),
      Log (CreatingOptionChainSecurity half_past_nine AAPL_chain),
      CreateSecurity 0,
      SetFilter (SecurityObject 0) SelfFilter,
      SetIsTradable (SecurityObject 0) False]"
    by (simp add: AAPL_call_builds [OF p] h)
  from chain_security_configured [OF b, where w' = scenario and x = "0::nat"] b c h
  show ?thesis by simp
qed

subsection \<open>Late binding of the defaults\<close>

text \<open>
  C7. The settings and the initializer of a chain are resolved when the chain is built,
  from the state at that moment: the value given at construction when there is one,
  otherwise the host's default as it is then. This holds for a direct call of
  \<open>CreateOptionChain\<close> and for every universe that a \<^verbatim>\<open>next\<close> on the generator
  yields, so a host default changed between two refreshes is the one the later refresh
  uses.
\<close>

theorem defaults_resolved_at_call:
  "(fst (CreateOptionChain w symbol) = Inr u \<longrightarrow>
      universe_settings u =
        (case universeSettings (self w) of
           Some s \<Rightarrow> s | None \<Rightarrow> DefaultUniverseSettings (algorithm w)) \<and>
      universe_initializer u =
        (case securityInitializer (self w) of
           Some i \<Rightarrow> i | None \<Rightarrow> DefaultSecurityInitializer (algorithm w))) \<and>
   (fst (generator_next g w) = Yield u \<longrightarrow>
      universe_settings u =
        (case universeSettings (self w) of
           Some s \<Rightarrow> s | None \<Rightarrow> DefaultUniverseSettings (algorithm w)) \<and>
      universe_initializer u =
        (case securityInitializer (self w) of
           Some i \<Rightarrow> i | None \<Rightarrow> DefaultSecurityInitializer (algorithm w)))"
  using CreateOptionChain_settings [of w symbol u] generator_next_Yield [of g w u]
  by (simp add: effective_settings_def effective_initializer_def)

theorem defaults_resolved_at_call_witness:
  "fst (CreateOptionChain changed_default AAPL_call) =
     Inr \<lparr>universe_option = SecurityObject 0, universe_settings = daily_settings,
          universe_initializer = SecurityInitializer 1, universe_liveMode = False\<rparr> \<and>
   universeSettings (self changed_default) = None \<and>
   securityInitializer (self changed_default) = None \<and>
   DefaultUniverseSettings (algorithm changed_default) = daily_settings \<and>
   DefaultSecurityInitializer (algorithm changed_default) = SecurityInitializer 1 \<and>
   fst (CreateOptionChain explicit_settings AAPL_call) =
     Inr \<lparr>universe_option = SecurityObject 0, universe_settings = daily_settings,
          universe_initializer = SecurityInitializer 2, universe_liveMode = False\<rparr> \<and>
   universeSettings (self explicit_settings) = Some daily_settings \<and>
   securityInitializer (self explicit_settings) = Some (SecurityInitializer 2) \<and>
   DefaultUniverseSettings (algorithm explicit_settings) = minute_settings \<and>
   DefaultSecurityInitializer (algorithm explicit_settings) = SecurityInitializer 0"
  using changed_default_builds explicit_settings_builds
    defaults_resolved_at_call [of changed_default AAPL_call
      "\<lparr>universe_option = SecurityObject 0, universe_settings = daily_settings,
        universe_initializer = SecurityInitializer 1, universe_liveMode = False\<rparr>"]
    defaults_resolved_at_call [of explicit_settings AAPL_call
      "\<lparr>universe_option = SecurityObject 0, universe_settings = daily_settings,
        universe_initializer = SecurityInitializer 2, universe_liveMode = False\<rparr>"]
  by (simp add: changed_default_def explicit_settings_def scenario_def host_def init_def)

subsection \<open>The guard of \<open>CreateOptionChain\<close>\<close>

text \<open>
  C8. For every symbol whose security type is not Option, \<open>CreateOptionChain\<close> fails
  with the \<^verbatim>\<open>ValueError\<close> ``CreateOptionChain requires an option symbol.'' and leaves
  the policy object and the host exactly as they were: nothing is logged and nothing
  else is done. From a refresh this error cannot arise: no \<^verbatim>\<open>next\<close> on the generator
  raises it and no consumption of the generator ends with it, whatever the selector
  returns, because the loop checks the security type before it calls
  \<open>CreateOptionChain\<close>.
\<close>

theorem CreateOptionChain_requires_option:
  "(SecurityType symbol \<noteq> Option \<longrightarrow>
      CreateOptionChain w symbol =
        (Inl (ValueError ''CreateOptionChain requires an option symbol.''), w)) \<and>
   fst (generator_next g w') \<noteq> Raise (ValueError ''CreateOptionChain requires an option symbol.'') \<and>
   fst (snd (drain g w')) \<noteq> Some (ValueError ''CreateOptionChain requires an option symbol.'')"
proof (intro conjI impI)
  assume "SecurityType symbol \<noteq> Option"
  then show "CreateOptionChain w symbol =
        (Inl (ValueError ''CreateOptionChain requires an option symbol.''), w)"
    by (simp add: CreateOptionChain_def)
next
  show "fst (generator_next g w') \<noteq> Raise (ValueError ''CreateOptionChain requires an option symbol.'')"
    using generator_next_error [of g w' "ValueError ''CreateOptionChain requires an option symbol.''"]
    by (auto simp: selector_error_def)
next
  show "fst (snd (drain g w')) \<noteq> Some (ValueError ''CreateOptionChain requires an option symbol.'')"
    using drain_error [of g w' "ValueError ''CreateOptionChain requires an option symbol.''"]
    by (auto simp: selector_error_def)
qed

theorem CreateOptionChain_requires_option_witness:
  "SecurityType MSFT \<noteq> Option \<and>
   CreateOptionChain scenario MSFT =
     (Inl (ValueError ''CreateOptionChain requires an option symbol.''), scenario)"
  using CreateOptionChain_requires_option [of MSFT scenario]
  by (simp add: MSFT_def)

subsection \<open>The filter\<close>

text \<open>
  C9. \<open>Filter\<close> is the identity: for every input it returns the value it received, at
  the type it received it, and it leaves the policy object and the host as they were.
\<close>

theorem Filter_identity: "Filter w f = (f, w)"
  by (simp add: Filter_def)

subsection \<open>The frame of the methods\<close>

text \<open>
  C10. A \<^verbatim>\<open>next\<close> on the generator and the consumption of the generator change at most
  the field \<^verbatim>\<open>nextRefreshTimeUtc\<close> of the policy object: the interval, the selector, the
  settings and the initializer given at construction are what they were, whether the
  run ends normally or with an exception. Creating the generator, \<open>CreateOptionChain\<close>,
  \<open>CreateOptionChainSecurity\<close> and \<open>Filter\<close> do not change the policy object at all,
  and \<open>GetNextRefreshTimeUtc\<close> changes neither the policy object nor the host.
\<close>

theorem only_nextRefreshTimeUtc_changes:
  "self (snd (snd (generator_next g w))) =
     (self w)\<lparr>nextRefreshTimeUtc := nextRefreshTimeUtc (self (snd (snd (generator_next g w))))\<rparr> \<and>
   self (snd (snd (drain g w))) =
     (self w)\<lparr>nextRefreshTimeUtc := nextRefreshTimeUtc (self (snd (snd (drain g w))))\<rparr> \<and>
   refreshInterval (self (snd (snd (drain g w)))) = refreshInterval (self w) \<and>
   optionChainSymbolSelector (self (snd (snd (drain g w)))) = optionChainSymbolSelector (self w) \<and>
   universeSettings (self (snd (snd (drain g w)))) = universeSettings (self w) \<and>
   securityInitializer (self (snd (snd (drain g w)))) = securityInitializer (self w) \<and>
   self (snd (CreateUniverses w)) = self w \<and>
   self (snd (CreateOptionChain w symbol)) = self w \<and>
   self (snd (CreateOptionChainSecurity w symbol st i)) = self w \<and>
   self (snd (Filter w x)) = self w \<and>
   snd (GetNextRefreshTimeUtc w) = w"
proof -
  let ?m = "self (snd (snd (drain g w)))"
  have eq: "?m = (self w)\<lparr>nextRefreshTimeUtc := nextRefreshTimeUtc ?m\<rparr>"
    by (rule drain_self)
  have "refreshInterval ?m = refreshInterval ((self w)\<lparr>nextRefreshTimeUtc := nextRefreshTimeUtc ?m\<rparr>)"
    "optionChainSymbolSelector ?m =
       optionChainSymbolSelector ((self w)\<lparr>nextRefreshTimeUtc := nextRefreshTimeUtc ?m\<rparr>)"
    "universeSettings ?m = universeSettings ((self w)\<lparr>nextRefreshTimeUtc := nextRefreshTimeUtc ?m\<rparr>)"
    "securityInitializer ?m =
       securityInitializer ((self w)\<lparr>nextRefreshTimeUtc := nextRefreshTimeUtc ?m\<rparr>)"
    using eq by (rule arg_cong)+
  then have fields: "refreshInterval ?m = refreshInterval (self w)"
    "optionChainSymbolSelector ?m = optionChainSymbolSelector (self w)"
    "universeSettings ?m = universeSettings (self w)"
    "securityInitializer ?m = securityInitializer (self w)"
    by simp_all
  show ?thesis
    using generator_next_self [of g w] eq fields CreateOptionChain_self [of w symbol]
      CreateOptionChainSecurity_self [of w symbol st i]
    by (simp add: CreateUniverses_def Filter_def GetNextRefreshTimeUtc_def)
qed

end
